theory Spec2Isabelle
  imports Complex_Main
begin

section \<open>Strings of the Go library\<close>

text \<open>
  A Go string is a sequence of bytes; here it is a \<^typ>\<open>string\<close>. The functions of the
  packages \<^verbatim>\<open>strings\<close> and \<^verbatim>\<open>strconv\<close> that the sources call are written out for
  these byte strings. \<^verbatim>\<open>strings.ToLower\<close> is modelled on the ASCII letters.
\<close>

definition toLowerChar :: "char \<Rightarrow> char" where
  "toLowerChar c =
     (let n = (of_char c :: nat) in if 65 \<le> n \<and> n \<le> 90 then char_of (n + 32) else c)"

definition strings_ToLower :: "string \<Rightarrow> string" where
  "strings_ToLower s = map toLowerChar s"

text \<open>\<^verbatim>\<open>strings.IndexRune(s, r)\<close> for an ASCII rune: the first index of the byte, or -1.\<close>

fun strings_IndexRune :: "string \<Rightarrow> char \<Rightarrow> int" where
  "strings_IndexRune [] r = -1"
| "strings_IndexRune (c # cs) r =
     (if c = r then 0
      else (let i = strings_IndexRune cs r in if i < 0 then -1 else i + 1))"

text \<open>\<^verbatim>\<open>strings.Trim(s, cutset)\<close>: leading and trailing bytes of the cutset removed.\<close>

definition strings_Trim :: "string \<Rightarrow> string \<Rightarrow> string" where
  "strings_Trim s cutset =
     rev (dropWhile (\<lambda>c. c \<in> set cutset) (rev (dropWhile (\<lambda>c. c \<in> set cutset) s)))"

text \<open>\<^verbatim>\<open>strings.Split(s, sep)\<close> for a separator of one byte.\<close>

fun strings_Split :: "string \<Rightarrow> char \<Rightarrow> string list" where
  "strings_Split [] sep = [[]]"
| "strings_Split (c # cs) sep =
     (if c = sep then [] # strings_Split cs sep
      else (let r = strings_Split cs sep in (c # hd r) # tl r))"

definition isDigit :: "char \<Rightarrow> bool" where
  "isDigit c = (48 \<le> (of_char c :: nat) \<and> (of_char c :: nat) \<le> 57)"

definition digitsValue :: "string \<Rightarrow> nat" where
  "digitsValue ds = foldl (\<lambda>a c. 10 * a + (of_char c - 48)) 0 ds"

text \<open>
  \<^verbatim>\<open>strconv.Atoi\<close>: an optional sign, then one or more decimal digits, the value within
  the range of \<^verbatim>\<open>int\<close> (64 bits); \<open>None\<close> is a returned error.
\<close>

definition strconv_Atoi :: "string \<Rightarrow> int option" where
  "strconv_Atoi s =
     (let (neg, ds) =
        (case s of
           [] \<Rightarrow> (False, [])
         | c # r \<Rightarrow> if c = CHR ''-'' then (True, r)
                    else if c = CHR ''+'' then (False, r) else (False, s))
      in if ds = [] \<or> \<not> list_all isDigit ds then None
         else (let n = int (digitsValue ds); v = (if neg then - n else n)
               in if - (2 ^ 63) \<le> v \<and> v < 2 ^ 63 then Some v else None))"

text \<open>\<^verbatim>\<open>strconv.Itoa\<close>: the decimal text of an integer.\<close>

fun natText :: "nat \<Rightarrow> string" where
  "natText n = (if n < 10 then [char_of (48 + n)] else natText (n div 10) @ [char_of (48 + n mod 10)])"

declare natText.simps [simp del]

definition strconv_Itoa :: "int \<Rightarrow> string" where
  "strconv_Itoa i = (if i < 0 then CHR ''-'' # natText (nat (- i)) else natText (nat i))"

section \<open>Values\<close>

text \<open>
  A Go function value is identified by a number; \<open>None\<close> is the nil function of its type.
\<close>

type_synonym fnid = nat

text \<open>
  Plain values of view properties (the dynamic values held by \<^verbatim>\<open>From\<close>, \<^verbatim>\<open>To\<close> and the
  keyframes of an AnimatedProperty). A float64 is written as a real number; \<open>POther\<close> is a
  value of any other dynamic type, identified by a number.
\<close>

datatype pval = PString string | PInt int | PBool bool | PFloat real | POther nat

text \<open>
  A value of type \<^verbatim>\<open>map[int]interface{}\<close> is nil or a reference to a map: two structs that
  were given the same map share it, and a key deleted through one is gone for the other.
  The maps of keyframes live in a store, \<open>mapAt\<close> of an address is the map there (a partial
  function; an \<^verbatim>\<open>interface{}\<close> is an option and \<open>None\<close> is nil), and the addresses below
  \<open>mapCount\<close> are the ones in use: a map literal takes the next one.
\<close>

type_synonym keyframes = "int \<rightharpoonup> pval option"

record mapStore =
  mapAt :: "nat \<Rightarrow> keyframes"
  mapCount :: nat

definition deleteKey :: "nat \<Rightarrow> int \<Rightarrow> mapStore \<Rightarrow> mapStore" where
  "deleteKey a k mem = mem\<lparr>mapAt := (mapAt mem)(a := (mapAt mem a)(k := None))\<rparr>"

definition assignKey :: "nat \<Rightarrow> int \<Rightarrow> pval option \<Rightarrow> mapStore \<Rightarrow> mapStore" where
  "assignKey a k v mem = mem\<lparr>mapAt := (mapAt mem)(a := (mapAt mem a)(k \<mapsto> v))\<rparr>"

definition newMap :: "keyframes \<Rightarrow> mapStore \<Rightarrow> nat \<times> mapStore" where
  "newMap m mem =
     (mapCount mem, mem\<lparr>mapAt := (mapAt mem)(mapCount mem := m), mapCount := Suc (mapCount mem)\<rparr>)"

text \<open>
  \<^verbatim>\<open>type AnimatedProperty struct\<close>. \<^verbatim>\<open>KeyFrames\<close> is nil or the address of a map in the
  store.
\<close>

record AnimatedProperty =
  Tag :: string
  From :: "pval option"
  To :: "pval option"
  KeyFrames :: "nat option"

text \<open>
  The parsed text of a UI description: a node has a tag and is a text, an object (its
  properties) or an array of values.
\<close>

datatype DataNode =
    TextNode string string
  | ObjectNode string "DataNode list"
  | ArrayNode string "DataValue list"
and DataValue =
    DataText string
  | DataObject "DataNode list"

text \<open>
  An \<^verbatim>\<open>Animation\<close> is an interface value: nil, or a pointer to an animationData, which is
  identified by its address.
\<close>

type_synonym Animation = "nat option"

text \<open>
  A value of type \<^verbatim>\<open>func(View, string)\<close>: nil, a function of the caller, or one of the
  closures that \<^verbatim>\<open>valueToAnimationListeners\<close> builds around a function of another shape.
\<close>

datatype listener =
    NilFunc
  | Func fnid
  | WrapString "fnid option"
  | WrapView "fnid option"
  | Wrap0 "fnid option"

text \<open>The \<^verbatim>\<open>interface{}\<close> values that the embedded functions tell apart, by dynamic type.\<close>

datatype val =
    VPlain pval
  | VAnimatedProperty AnimatedProperty
  | VAnimatedProperties "AnimatedProperty list"
  | VDataNode DataNode
  | VAnimation nat
  | VAnimations "Animation list"
  | VParams "string \<Rightarrow> val option option"
  | VFuncViewString listener
  | VFuncString "fnid option"
  | VFuncView "fnid option"
  | VFunc0 "fnid option"
  | VFuncViewStrings "listener list"
  | VFuncStrings "fnid option list"
  | VFuncViews "fnid option list"
  | VFunc0s "fnid option list"
  | VAnys "val option list"
  | VOther nat

section \<open>State\<close>

text \<open>
  What the program sends outside: the instructions for the rendering surface
  (\<^verbatim>\<open>updateProperty\<close>, \<^verbatim>\<open>updateCSSProperty\<close>, \<^verbatim>\<open>removeProperty\<close>, \<^verbatim>\<open>updateInnerHTML\<close>,
  \<^verbatim>\<open>runScript\<close>, each with the html id of the node first), the messages of the log
  (\<^verbatim>\<open>ErrorLog\<close>, and \<^verbatim>\<open>notCompatibleType\<close> with its tag), and the calls of listeners
  (\<open>Invoke l p\<close> is the call \<^verbatim>\<open>l(view, p)\<close>; what the callee does is outside the model, and
  the call of a nil function panics). \<open>Panic\<close> marks an index out of range.
\<close>

datatype effect =
    UpdateProperty string string string
  | UpdateCSSProperty string string string
  | RemoveProperty string string
  | UpdateInnerHTML string
  | RunScript string
  | ErrorLog string
  | NotCompatibleType string
  | Panic string
  | Invoke listener string
  | InvokeDropDown fnid int

text \<open>
  The session: the two fields that \<^verbatim>\<open>registerAnimation\<close> writes (its counter of animations
  and its style text), and the trace of the effects above in the order they happen; the
  trace is the model's record of what the session was asked to send, not a field of the
  Go struct.
\<close>

record sessionData =
  animationCounter :: int
  animationCSS :: string
  trace :: "effect list"

text \<open>
  \<^verbatim>\<open>propertyList\<close> and \<^verbatim>\<open>viewStyle\<close>, by the fields that the embedded functions read and
  write: the map \<^verbatim>\<open>properties\<close> of the first, which animationData and viewStyle embed, and
  the map \<^verbatim>\<open>transitions\<close> of the second. Embedding of a struct is extension of a record.
\<close>

record propertyList =
  properties :: "string \<rightharpoonup> val"

record animationData = propertyList +
  keyFramesName :: string

record viewStyle = propertyList +
  transitions :: "string \<rightharpoonup> Animation"

text \<open>
  \<^verbatim>\<open>type viewData struct\<close>. The field \<open>htmlID_field\<close> is \<^verbatim>\<open>_htmlID\<close>, and \<open>session\<close> holds the
  state of the session of the view. The fields tag, addCSS, frame, scroll and
  noResizeEvent are neither read nor written by the functions embedded below and are
  left out.
\<close>

record viewData = viewStyle +
  session :: sessionData
  viewID :: string
  htmlID_field :: string
  parentID :: string
  systemClass :: string
  changeListener :: "string \<rightharpoonup> listener"
  singleTransition :: "string \<rightharpoonup> Animation"
  created :: bool
  hasFocus :: bool

text \<open>
  \<^verbatim>\<open>type dropDownListData struct\<close>, which embeds a viewData. A stored
  \<^verbatim>\<open>func(DropDownList, int)\<close> is identified by a number.
\<close>

record dropDownListData =
  viewData :: viewData
  items :: "string list"
  disabledItems :: "val option list"
  dropDownListener :: "fnid list"

section \<open>Tags\<close>

text \<open>The constants of animation.go and of the files of the events and of the drop-down list.\<close>

abbreviation AnimationTag :: string where "AnimationTag \<equiv> ''animation''"
abbreviation AnimationPaused :: string where "AnimationPaused \<equiv> ''animation-paused''"
abbreviation Transition :: string where "Transition \<equiv> ''transition''"
abbreviation PropertyTag :: string where "PropertyTag \<equiv> ''property''"
abbreviation Duration :: string where "Duration \<equiv> ''duration''"
abbreviation Delay :: string where "Delay \<equiv> ''delay''"
abbreviation TimingFunction :: string where "TimingFunction \<equiv> ''timing-function''"
abbreviation IterationCount :: string where "IterationCount \<equiv> ''iteration-count''"
abbreviation AnimationDirection :: string where "AnimationDirection \<equiv> ''animation-direction''"
abbreviation EaseTiming :: string where "EaseTiming \<equiv> ''ease''"
abbreviation EaseInTiming :: string where "EaseInTiming \<equiv> ''ease-in''"
abbreviation EaseOutTiming :: string where "EaseOutTiming \<equiv> ''ease-out''"
abbreviation EaseInOutTiming :: string where "EaseInOutTiming \<equiv> ''ease-in-out''"
abbreviation LinearTiming :: string where "LinearTiming \<equiv> ''linear''"
abbreviation TransitionRunEvent :: string where "TransitionRunEvent \<equiv> ''transition-run-event''"
abbreviation TransitionStartEvent :: string where "TransitionStartEvent \<equiv> ''transition-start-event''"
abbreviation TransitionEndEvent :: string where "TransitionEndEvent \<equiv> ''transition-end-event''"
abbreviation TransitionCancelEvent :: string where "TransitionCancelEvent \<equiv> ''transition-cancel-event''"
abbreviation AnimationStartEvent :: string where "AnimationStartEvent \<equiv> ''animation-start-event''"
abbreviation AnimationEndEvent :: string where "AnimationEndEvent \<equiv> ''animation-end-event''"
abbreviation AnimationCancelEvent :: string where "AnimationCancelEvent \<equiv> ''animation-cancel-event''"
abbreviation AnimationIterationEvent :: string where "AnimationIterationEvent \<equiv> ''animation-iteration-event''"
abbreviation DropDownEvent :: string where "DropDownEvent \<equiv> ''drop-down-event''"

text \<open>
  Modelled from the spec: the tag constants below are declared in files of the package
  other than the four embedded here. The spec writes a tag as its lower-case hyphenated
  text (\<^verbatim>\<open>border-left-width\<close>, \<^verbatim>\<open>opacity\<close>, \<^verbatim>\<open>transition-end-event\<close>), animation.go
  lists \<^verbatim>\<open>id\<close> among the properties of an Animation, and view.go hands several of these
  constants to the rendering surface as the names of CSS properties.
\<close>

abbreviation ID :: string where "ID \<equiv> ''id''"
abbreviation Direction :: string where "Direction \<equiv> ''direction''"
abbreviation UserData :: string where "UserData \<equiv> ''user-data''"
abbreviation Style :: string where "Style \<equiv> ''style''"
abbreviation StyleDisabled :: string where "StyleDisabled \<equiv> ''style-disabled''"
abbreviation FocusEvent :: string where "FocusEvent \<equiv> ''focus-event''"
abbreviation LostFocusEvent :: string where "LostFocusEvent \<equiv> ''lost-focus-event''"
abbreviation KeyDownEvent :: string where "KeyDownEvent \<equiv> ''key-down-event''"
abbreviation KeyUpEvent :: string where "KeyUpEvent \<equiv> ''key-up-event''"
abbreviation ClickEvent :: string where "ClickEvent \<equiv> ''click-event''"
abbreviation DoubleClickEvent :: string where "DoubleClickEvent \<equiv> ''double-click-event''"
abbreviation MouseDown :: string where "MouseDown \<equiv> ''mouse-down''"
abbreviation MouseUp :: string where "MouseUp \<equiv> ''mouse-up''"
abbreviation MouseMove :: string where "MouseMove \<equiv> ''mouse-move''"
abbreviation MouseOut :: string where "MouseOut \<equiv> ''mouse-out''"
abbreviation MouseOver :: string where "MouseOver \<equiv> ''mouse-over''"
abbreviation ContextMenuEvent :: string where "ContextMenuEvent \<equiv> ''context-menu-event''"
abbreviation PointerDown :: string where "PointerDown \<equiv> ''pointer-down''"
abbreviation PointerUp :: string where "PointerUp \<equiv> ''pointer-up''"
abbreviation PointerMove :: string where "PointerMove \<equiv> ''pointer-move''"
abbreviation PointerOut :: string where "PointerOut \<equiv> ''pointer-out''"
abbreviation PointerOver :: string where "PointerOver \<equiv> ''pointer-over''"
abbreviation PointerCancel :: string where "PointerCancel \<equiv> ''pointer-cancel''"
abbreviation TouchStart :: string where "TouchStart \<equiv> ''touch-start''"
abbreviation TouchEnd :: string where "TouchEnd \<equiv> ''touch-end''"
abbreviation TouchMove :: string where "TouchMove \<equiv> ''touch-move''"
abbreviation TouchCancel :: string where "TouchCancel \<equiv> ''touch-cancel''"
abbreviation ResizeEvent :: string where "ResizeEvent \<equiv> ''resize-event''"
abbreviation ScrollEvent :: string where "ScrollEvent \<equiv> ''scroll-event''"
abbreviation Content :: string where "Content \<equiv> ''content''"
abbreviation Disabled :: string where "Disabled \<equiv> ''disabled''"
abbreviation Visibility :: string where "Visibility \<equiv> ''visibility''"
abbreviation Background :: string where "Background \<equiv> ''background''"
abbreviation Border :: string where "Border \<equiv> ''border''"
abbreviation BorderLeft :: string where "BorderLeft \<equiv> ''border-left''"
abbreviation BorderRight :: string where "BorderRight \<equiv> ''border-right''"
abbreviation BorderTop :: string where "BorderTop \<equiv> ''border-top''"
abbreviation BorderBottom :: string where "BorderBottom \<equiv> ''border-bottom''"
abbreviation BorderStyle :: string where "BorderStyle \<equiv> ''border-style''"
abbreviation BorderLeftStyle :: string where "BorderLeftStyle \<equiv> ''border-left-style''"
abbreviation BorderRightStyle :: string where "BorderRightStyle \<equiv> ''border-right-style''"
abbreviation BorderTopStyle :: string where "BorderTopStyle \<equiv> ''border-top-style''"
abbreviation BorderBottomStyle :: string where "BorderBottomStyle \<equiv> ''border-bottom-style''"
abbreviation BorderColor :: string where "BorderColor \<equiv> ''border-color''"
abbreviation BorderLeftColor :: string where "BorderLeftColor \<equiv> ''border-left-color''"
abbreviation BorderRightColor :: string where "BorderRightColor \<equiv> ''border-right-color''"
abbreviation BorderTopColor :: string where "BorderTopColor \<equiv> ''border-top-color''"
abbreviation BorderBottomColor :: string where "BorderBottomColor \<equiv> ''border-bottom-color''"
abbreviation BorderWidth :: string where "BorderWidth \<equiv> ''border-width''"
abbreviation BorderLeftWidth :: string where "BorderLeftWidth \<equiv> ''border-left-width''"
abbreviation BorderRightWidth :: string where "BorderRightWidth \<equiv> ''border-right-width''"
abbreviation BorderTopWidth :: string where "BorderTopWidth \<equiv> ''border-top-width''"
abbreviation BorderBottomWidth :: string where "BorderBottomWidth \<equiv> ''border-bottom-width''"
abbreviation CellBorder :: string where "CellBorder \<equiv> ''cell-border''"
abbreviation CellBorderStyle :: string where "CellBorderStyle \<equiv> ''cell-border-style''"
abbreviation CellBorderColor :: string where "CellBorderColor \<equiv> ''cell-border-color''"
abbreviation CellBorderWidth :: string where "CellBorderWidth \<equiv> ''cell-border-width''"
abbreviation CellBorderLeft :: string where "CellBorderLeft \<equiv> ''cell-border-left''"
abbreviation CellBorderLeftStyle :: string where "CellBorderLeftStyle \<equiv> ''cell-border-left-style''"
abbreviation CellBorderLeftColor :: string where "CellBorderLeftColor \<equiv> ''cell-border-left-color''"
abbreviation CellBorderLeftWidth :: string where "CellBorderLeftWidth \<equiv> ''cell-border-left-width''"
abbreviation CellBorderRight :: string where "CellBorderRight \<equiv> ''cell-border-right''"
abbreviation CellBorderRightStyle :: string where "CellBorderRightStyle \<equiv> ''cell-border-right-style''"
abbreviation CellBorderRightColor :: string where "CellBorderRightColor \<equiv> ''cell-border-right-color''"
abbreviation CellBorderRightWidth :: string where "CellBorderRightWidth \<equiv> ''cell-border-right-width''"
abbreviation CellBorderTop :: string where "CellBorderTop \<equiv> ''cell-border-top''"
abbreviation CellBorderTopStyle :: string where "CellBorderTopStyle \<equiv> ''cell-border-top-style''"
abbreviation CellBorderTopColor :: string where "CellBorderTopColor \<equiv> ''cell-border-top-color''"
abbreviation CellBorderTopWidth :: string where "CellBorderTopWidth \<equiv> ''cell-border-top-width''"
abbreviation CellBorderBottom :: string where "CellBorderBottom \<equiv> ''cell-border-bottom''"
abbreviation CellBorderBottomStyle :: string where "CellBorderBottomStyle \<equiv> ''cell-border-bottom-style''"
abbreviation CellBorderBottomColor :: string where "CellBorderBottomColor \<equiv> ''cell-border-bottom-color''"
abbreviation CellBorderBottomWidth :: string where "CellBorderBottomWidth \<equiv> ''cell-border-bottom-width''"
abbreviation Outline :: string where "Outline \<equiv> ''outline''"
abbreviation OutlineColor :: string where "OutlineColor \<equiv> ''outline-color''"
abbreviation OutlineStyle :: string where "OutlineStyle \<equiv> ''outline-style''"
abbreviation OutlineWidth :: string where "OutlineWidth \<equiv> ''outline-width''"
abbreviation Shadow :: string where "Shadow \<equiv> ''shadow''"
abbreviation TextShadow :: string where "TextShadow \<equiv> ''text-shadow''"
abbreviation Radius :: string where "Radius \<equiv> ''radius''"
abbreviation RadiusX :: string where "RadiusX \<equiv> ''radius-x''"
abbreviation RadiusY :: string where "RadiusY \<equiv> ''radius-y''"
abbreviation RadiusTopLeft :: string where "RadiusTopLeft \<equiv> ''radius-top-left''"
abbreviation RadiusTopLeftX :: string where "RadiusTopLeftX \<equiv> ''radius-top-left-x''"
abbreviation RadiusTopLeftY :: string where "RadiusTopLeftY \<equiv> ''radius-top-left-y''"
abbreviation RadiusTopRight :: string where "RadiusTopRight \<equiv> ''radius-top-right''"
abbreviation RadiusTopRightX :: string where "RadiusTopRightX \<equiv> ''radius-top-right-x''"
abbreviation RadiusTopRightY :: string where "RadiusTopRightY \<equiv> ''radius-top-right-y''"
abbreviation RadiusBottomLeft :: string where "RadiusBottomLeft \<equiv> ''radius-bottom-left''"
abbreviation RadiusBottomLeftX :: string where "RadiusBottomLeftX \<equiv> ''radius-bottom-left-x''"
abbreviation RadiusBottomLeftY :: string where "RadiusBottomLeftY \<equiv> ''radius-bottom-left-y''"
abbreviation RadiusBottomRight :: string where "RadiusBottomRight \<equiv> ''radius-bottom-right''"
abbreviation RadiusBottomRightX :: string where "RadiusBottomRightX \<equiv> ''radius-bottom-right-x''"
abbreviation RadiusBottomRightY :: string where "RadiusBottomRightY \<equiv> ''radius-bottom-right-y''"
abbreviation Margin :: string where "Margin \<equiv> ''margin''"
abbreviation MarginTop :: string where "MarginTop \<equiv> ''margin-top''"
abbreviation MarginRight :: string where "MarginRight \<equiv> ''margin-right''"
abbreviation MarginBottom :: string where "MarginBottom \<equiv> ''margin-bottom''"
abbreviation MarginLeft :: string where "MarginLeft \<equiv> ''margin-left''"
abbreviation Padding :: string where "Padding \<equiv> ''padding''"
abbreviation PaddingTop :: string where "PaddingTop \<equiv> ''padding-top''"
abbreviation PaddingRight :: string where "PaddingRight \<equiv> ''padding-right''"
abbreviation PaddingBottom :: string where "PaddingBottom \<equiv> ''padding-bottom''"
abbreviation PaddingLeft :: string where "PaddingLeft \<equiv> ''padding-left''"
abbreviation CellPadding :: string where "CellPadding \<equiv> ''cell-padding''"
abbreviation CellPaddingTop :: string where "CellPaddingTop \<equiv> ''cell-padding-top''"
abbreviation CellPaddingRight :: string where "CellPaddingRight \<equiv> ''cell-padding-right''"
abbreviation CellPaddingBottom :: string where "CellPaddingBottom \<equiv> ''cell-padding-bottom''"
abbreviation CellPaddingLeft :: string where "CellPaddingLeft \<equiv> ''cell-padding-left''"
abbreviation ColumnSeparator :: string where "ColumnSeparator \<equiv> ''column-separator''"
abbreviation ColumnSeparatorStyle :: string where "ColumnSeparatorStyle \<equiv> ''column-separator-style''"
abbreviation ColumnSeparatorWidth :: string where "ColumnSeparatorWidth \<equiv> ''column-separator-width''"
abbreviation ColumnSeparatorColor :: string where "ColumnSeparatorColor \<equiv> ''column-separator-color''"
abbreviation AvoidBreak :: string where "AvoidBreak \<equiv> ''avoid-break''"
abbreviation Clip :: string where "Clip \<equiv> ''clip''"
abbreviation ShapeOutside :: string where "ShapeOutside \<equiv> ''shape-outside''"
abbreviation Filter :: string where "Filter \<equiv> ''filter''"
abbreviation BackdropFilter :: string where "BackdropFilter \<equiv> ''backdrop-filter''"
abbreviation FontName :: string where "FontName \<equiv> ''font-name''"
abbreviation Italic :: string where "Italic \<equiv> ''italic''"
abbreviation SmallCaps :: string where "SmallCaps \<equiv> ''small-caps''"
abbreviation Strikethrough :: string where "Strikethrough \<equiv> ''strikethrough''"
abbreviation Overline :: string where "Overline \<equiv> ''overline''"
abbreviation Underline :: string where "Underline \<equiv> ''underline''"
abbreviation TextLineColor :: string where "TextLineColor \<equiv> ''text-line-color''"
abbreviation TextLineStyle :: string where "TextLineStyle \<equiv> ''text-line-style''"
abbreviation TextLineThickness :: string where "TextLineThickness \<equiv> ''text-line-thickness''"
abbreviation ZIndex :: string where "ZIndex \<equiv> ''z-index''"
abbreviation Row :: string where "Row \<equiv> ''row''"
abbreviation Column :: string where "Column \<equiv> ''column''"
abbreviation BackgroundColor :: string where "BackgroundColor \<equiv> ''background-color''"
abbreviation TextColor :: string where "TextColor \<equiv> ''text-color''"
abbreviation CaretColor :: string where "CaretColor \<equiv> ''caret-color''"
abbreviation Opacity :: string where "Opacity \<equiv> ''opacity''"
abbreviation ScaleX :: string where "ScaleX \<equiv> ''scale-x''"
abbreviation ScaleY :: string where "ScaleY \<equiv> ''scale-y''"
abbreviation ScaleZ :: string where "ScaleZ \<equiv> ''scale-z''"
abbreviation RotateX :: string where "RotateX \<equiv> ''rotate-x''"
abbreviation RotateY :: string where "RotateY \<equiv> ''rotate-y''"
abbreviation RotateZ :: string where "RotateZ \<equiv> ''rotate-z''"
abbreviation Items :: string where "Items \<equiv> ''items''"
abbreviation DisabledItems :: string where "DisabledItems \<equiv> ''disabled-items''"
abbreviation Current :: string where "Current \<equiv> ''current''"

text \<open>
  Modelled from the spec: the values of the visibility property that view.go compares
  with (declared in another file of the package), in the order visible, invisible, gone.
\<close>

abbreviation (input) Invisible :: int where "Invisible \<equiv> 1"
abbreviation (input) Gone :: int where "Gone \<equiv> 2"

text \<open>
  Modelled from the spec: the entry of the table \<^verbatim>\<open>enumProperties\<close> for the direction of
  an animation (the table is declared in another file of the package): one of normal, reverse,
  alternate, alternate-reverse.
\<close>

definition animationDirection_values :: "string list" where
  "animationDirection_values = [''normal'', ''reverse'', ''alternate'', ''alternate-reverse'']"

definition animationDirection_cssValues :: "string list" where
  "animationDirection_cssValues = [''normal'', ''reverse'', ''alternate'', ''alternate-reverse'']"

section \<open>Code of the package in other files\<close>

text \<open>
  A border as \<^verbatim>\<open>getBorder\<close> returns it, by the three CSS texts that its methods
  \<^verbatim>\<open>cssWidthValue\<close>, \<^verbatim>\<open>cssColorValue\<close> and \<^verbatim>\<open>cssStyleValue\<close> give.
\<close>

record border =
  cssWidthValue :: string
  cssColorValue :: string
  cssStyleValue :: string

text \<open>An entry of the table \<^verbatim>\<open>enumProperties\<close>, as far as view.go reads it.\<close>

record enumInfo =
  cssTag :: string
  cssValues :: "string list"

text \<open>The bounds that animation.go passes to \<^verbatim>\<open>setFloatProperty\<close>.\<close>

datatype fbound = Zero | MaxFloat64 | MinusMaxFloat64

text \<open>
  The functions and tables of the package that the embedded functions call and that are
  declared in other files of the package are parameters of the model, gathered in one record.
  A function that writes to its receiver returns the new receiver; one that returns a
  \<^verbatim>\<open>bool\<close> as well returns the pair. \<open>parseFloat\<close> tells whether
  \<^verbatim>\<open>strconv.ParseFloat\<close> returns no error, \<open>fmt_g\<close> is the verb \<^verbatim>\<open>%g\<close> and \<open>formatFloat\<close>
  is \<^verbatim>\<open>strconv.FormatFloat(f, 'g', -1, 64)\<close>. \<open>keyframesStyle\<close> is the text that
  \<^verbatim>\<open>registerAnimation\<close> builds with cssStyleBuilder for a name and a list of properties
  (it reads the maps of keyframes that the properties refer to and writes none of them;
  the order of its percentage blocks follows the iteration order of Go maps), and
  \<open>transitionCSS\<close> is the text of \<^verbatim>\<open>viewStyle.transitionCSS\<close>, which ranges over the map of
  transitions in that unspecified order and prints floats. \<open>viewStyle_animationCSS\<close> is
  \<^verbatim>\<open>viewStyle.animationCSS\<close>, which calls \<^verbatim>\<open>animationCSS\<close> on the animation objects held by
  the property "animation". \<open>outlineCSS\<close>, \<open>radiusCSS\<close>, \<open>marginCSS\<close> and \<open>paddingCSS\<close> are
  \<^verbatim>\<open>cssString\<close> of \<^verbatim>\<open>GetOutline\<close>, \<^verbatim>\<open>GetRadius\<close>, \<^verbatim>\<open>GetMargin\<close> and \<^verbatim>\<open>GetPadding\<close>;
  \<open>clipShapeCSS\<close> is \<^verbatim>\<open>cssStyle\<close> of \<^verbatim>\<open>getClipShape\<close> when that is not nil and valid;
  \<open>filterCSS\<close> is \<^verbatim>\<open>cssStyle\<close> of a value that is a ViewFilter; \<open>sizePropertyCSS\<close> and
  \<open>colorPropertyCSS\<close> are \<^verbatim>\<open>cssString\<close> of \<^verbatim>\<open>sizeProperty\<close> and \<^verbatim>\<open>colorProperty\<close>.
\<close>

record ext =
  parseFloat :: "string \<Rightarrow> bool"
  fmt_g :: "real \<Rightarrow> string"
  formatFloat :: "real \<Rightarrow> string"
  setFloatProperty :: "(string \<rightharpoonup> val) \<Rightarrow> string \<Rightarrow> val \<Rightarrow> fbound \<Rightarrow> fbound \<Rightarrow> bool \<times> (string \<rightharpoonup> val)"
  setIntProperty :: "(string \<rightharpoonup> val) \<Rightarrow> string \<Rightarrow> val \<Rightarrow> bool \<times> (string \<rightharpoonup> val)"
  setEnumProperty :: "(string \<rightharpoonup> val) \<Rightarrow> string \<Rightarrow> val \<Rightarrow> string list \<Rightarrow> bool \<times> (string \<rightharpoonup> val)"
  floatProperty :: "(string \<rightharpoonup> val) \<Rightarrow> string \<Rightarrow> sessionData \<Rightarrow> real \<Rightarrow> real \<times> bool"
  intProperty :: "(string \<rightharpoonup> val) \<Rightarrow> string \<Rightarrow> sessionData \<Rightarrow> int \<Rightarrow> int \<times> bool"
  enumProperty :: "(string \<rightharpoonup> val) \<Rightarrow> string \<Rightarrow> sessionData \<Rightarrow> int \<Rightarrow> int \<times> bool"
  stringProperty :: "(string \<rightharpoonup> val) \<Rightarrow> string \<Rightarrow> sessionData \<Rightarrow> string \<times> bool"
  boolProperty :: "(string \<rightharpoonup> val) \<Rightarrow> string \<Rightarrow> sessionData \<Rightarrow> bool \<times> bool"
  resolveConstants :: "sessionData \<Rightarrow> string \<Rightarrow> string \<times> bool"
  keyframesStyle :: "string \<Rightarrow> AnimatedProperty list \<Rightarrow> sessionData \<Rightarrow> string"
  nextViewID :: "sessionData \<Rightarrow> string \<times> sessionData"
  ViewByID :: "viewData option \<Rightarrow> string \<Rightarrow> viewData option"
  IsDisabled :: "viewData \<Rightarrow> bool"
  viewStyle_set :: "string \<Rightarrow> val \<Rightarrow> viewData \<Rightarrow> bool \<times> viewData"
  viewStyle_remove :: "string \<Rightarrow> viewData \<Rightarrow> viewData"
  viewStyle_get :: "string \<Rightarrow> viewData \<Rightarrow> val option"
  setFocusListener :: "string \<Rightarrow> val \<Rightarrow> viewData \<Rightarrow> bool \<times> viewData"
  setKeyListener :: "string \<Rightarrow> val \<Rightarrow> viewData \<Rightarrow> bool \<times> viewData"
  setMouseListener :: "string \<Rightarrow> val \<Rightarrow> viewData \<Rightarrow> bool \<times> viewData"
  setPointerListener :: "string \<Rightarrow> val \<Rightarrow> viewData \<Rightarrow> bool \<times> viewData"
  setTouchListener :: "string \<Rightarrow> val \<Rightarrow> viewData \<Rightarrow> bool \<times> viewData"
  setFrameListener :: "string \<Rightarrow> val \<Rightarrow> viewData \<Rightarrow> bool \<times> viewData"
  removeFocusListener :: "string \<Rightarrow> viewData \<Rightarrow> viewData"
  removeKeyListener :: "string \<Rightarrow> viewData \<Rightarrow> viewData"
  removeMouseListener :: "string \<Rightarrow> viewData \<Rightarrow> viewData"
  removePointerListener :: "string \<Rightarrow> viewData \<Rightarrow> viewData"
  removeTouchListener :: "string \<Rightarrow> viewData \<Rightarrow> viewData"
  updateTransformProperty :: "string \<Rightarrow> viewData \<Rightarrow> bool \<times> viewData"
  GetVisibility :: "viewData \<Rightarrow> int"
  backgroundCSS :: "viewData \<Rightarrow> string"
  getBorder :: "viewData \<Rightarrow> string \<Rightarrow> border option"
  outlineCSS :: "viewData \<Rightarrow> string"
  shadowCSS :: "viewData \<Rightarrow> string \<Rightarrow> string"
  radiusCSS :: "viewData \<Rightarrow> string"
  marginCSS :: "viewData \<Rightarrow> string"
  paddingCSS :: "viewData \<Rightarrow> string"
  clipShapeCSS :: "viewData \<Rightarrow> string \<Rightarrow> string option"
  filterCSS :: "val \<Rightarrow> sessionData \<Rightarrow> string option"
  cssTextDecoration :: "viewData \<Rightarrow> string"
  transitionCSS :: "viewData \<Rightarrow> string"
  viewStyle_animationCSS :: "viewData \<Rightarrow> string \<times> viewData"
  sizeProperties :: "string \<rightharpoonup> string"
  sizePropertyCSS :: "viewData \<Rightarrow> string \<Rightarrow> string"
  colorPropertyCSS :: "viewData \<Rightarrow> string \<Rightarrow> string \<times> bool"
  enumProperties :: "string \<rightharpoonup> enumInfo"
  setItems :: "val \<Rightarrow> dropDownListData \<Rightarrow> bool \<times> dropDownListData"
  setDisabledItems :: "val \<Rightarrow> dropDownListData \<Rightarrow> bool \<times> dropDownListData"
  setDropDownListener :: "val \<Rightarrow> dropDownListData \<Rightarrow> bool \<times> dropDownListData"
  GetCurrent :: "dropDownListData \<Rightarrow> int"

text \<open>
  Modelled from the spec: the four functions that send an instruction to the rendering
  surface (declared in other files of the package) "set or clear a property of node N",
  "replace the inner content of node N", and \<^verbatim>\<open>runScript\<close> sends a script. Each is one
  entry of the trace of the session.
\<close>

definition updateProperty :: "string \<Rightarrow> string \<Rightarrow> string \<Rightarrow> sessionData \<Rightarrow> sessionData" where
  "updateProperty htmlID property value s = s\<lparr>trace := trace s @ [UpdateProperty htmlID property value]\<rparr>"

definition updateCSSProperty :: "string \<Rightarrow> string \<Rightarrow> string \<Rightarrow> sessionData \<Rightarrow> sessionData" where
  "updateCSSProperty htmlID property value s = s\<lparr>trace := trace s @ [UpdateCSSProperty htmlID property value]\<rparr>"

definition removeProperty :: "string \<Rightarrow> string \<Rightarrow> sessionData \<Rightarrow> sessionData" where
  "removeProperty htmlID property s = s\<lparr>trace := trace s @ [RemoveProperty htmlID property]\<rparr>"

definition updateInnerHTML :: "string \<Rightarrow> sessionData \<Rightarrow> sessionData" where
  "updateInnerHTML htmlID s = s\<lparr>trace := trace s @ [UpdateInnerHTML htmlID]\<rparr>"

definition runScript :: "string \<Rightarrow> sessionData \<Rightarrow> sessionData" where
  "runScript script s = s\<lparr>trace := trace s @ [RunScript script]\<rparr>"

text \<open>The log of the package and the calls of listeners are entries of the same trace.\<close>

definition logged :: "effect \<Rightarrow> sessionData \<Rightarrow> sessionData" where
  "logged e s = s\<lparr>trace := trace s @ [e]\<rparr>"

text \<open>
  Modelled from the spec: \<^verbatim>\<open>getRaw\<close> of propertyList (declared in another file of the package)
  reads the stored value of a tag, nil when there is none.
\<close>

definition getRaw :: "'a propertyList_scheme \<Rightarrow> string \<Rightarrow> val option" where
  "getRaw p tag = properties p tag"

section \<open>animation.go\<close>

subsection \<open>Timing functions\<close>

abbreviation blanks :: string where "blanks \<equiv> [CHR '' '', CHR 0x09, CHR 0x0A]"

text \<open>
  \<^verbatim>\<open>validateTimingFunction\<close>. \<open>pf\<close> tells whether \<^verbatim>\<open>strconv.ParseFloat(_, 64)\<close> returns no
  error. The slice \<^verbatim>\<open>timingFunction[index+1 : size-1]\<close> is in range: the first \<^verbatim>\<open>(\<close> is
  before the last byte, which is \<^verbatim>\<open>)\<close>.
\<close>

definition validateTimingFunction :: "(string \<Rightarrow> bool) \<Rightarrow> string \<Rightarrow> bool" where
  "validateTimingFunction pf timingFunction =
     (if timingFunction \<in> set ['''', EaseTiming, EaseInTiming, EaseOutTiming, EaseInOutTiming, LinearTiming]
      then True
      else
        (let size = length timingFunction in
         if size > 0 \<and> timingFunction ! (size - 1) = CHR '')'' then
           (let index = strings_IndexRune timingFunction (CHR ''('') in
            if index > 0 then
              (let args = take (size - 1 - (nat index + 1)) (drop (nat index + 1) timingFunction);
                   name = take (nat index) timingFunction
               in if name = ''steps'' then strconv_Atoi (strings_Trim args blanks) \<noteq> None
                  else if name = ''cubic-bezier'' then
                    (let params = strings_Split args (CHR '','') in
                     if length params = 4
                     then list_all (\<lambda>param. pf (strings_Trim param blanks)) params
                     else False)
                  else False)
            else False)
         else False))"

definition animationData_timingFunctionCSS :: "ext \<Rightarrow> animationData \<Rightarrow> sessionData \<Rightarrow> string" where
  "animationData_timingFunctionCSS ext animation session0 =
     (let (timingFunction, ok) = stringProperty ext (properties animation) TimingFunction session0 in
      if ok then
        (let (timingFunction, ok) = resolveConstants ext session0 timingFunction in
         if ok \<and> validateTimingFunction (parseFloat ext) timingFunction then timingFunction
         else ''ease'')
      else ''ease'')"

subsection \<open>Properties of an animation\<close>

definition animationData_normalizeTag :: "string \<Rightarrow> string" where
  "animationData_normalizeTag tag =
     (let tag = strings_ToLower tag in if tag = Direction then AnimationDirection else tag)"

definition animationData_Remove :: "string \<Rightarrow> animationData \<Rightarrow> animationData" where
  "animationData_Remove tag animation =
     animation\<lparr>properties := (properties animation)(animationData_normalizeTag tag := None)\<rparr>"

definition animationData_Get :: "string \<Rightarrow> animationData \<Rightarrow> val option" where
  "animationData_Get tag animation = getRaw animation (animationData_normalizeTag tag)"

text \<open>
  The two blocks that open the cases \<^verbatim>\<open>AnimatedProperty\<close> and \<^verbatim>\<open>[]AnimatedProperty\<close> of
  \<^verbatim>\<open>Set\<close>: a keyframe at 0 becomes \<^verbatim>\<open>From\<close> and one at 100 becomes \<^verbatim>\<open>To\<close>, when these are
  nil. The struct is a copy (the parameter of \<^verbatim>\<open>Set\<close>, the variable of the \<^verbatim>\<open>range\<close>), so
  \<^verbatim>\<open>From\<close> and \<^verbatim>\<open>To\<close> are written to the copy; \<^verbatim>\<open>delete\<close> takes the key out of the map
  that the copy refers to, which is the map of the caller.
\<close>

definition promoteFrom :: "AnimatedProperty \<Rightarrow> mapStore \<Rightarrow> AnimatedProperty \<times> mapStore" where
  "promoteFrom value mem =
     (case (From value, KeyFrames value) of
        (None, Some a) \<Rightarrow>
          (case mapAt mem a 0 of
             Some val \<Rightarrow> (value\<lparr>From := val\<rparr>, deleteKey a 0 mem)
           | None \<Rightarrow> (value, mem))
      | _ \<Rightarrow> (value, mem))"

definition promoteTo :: "AnimatedProperty \<Rightarrow> mapStore \<Rightarrow> AnimatedProperty \<times> mapStore" where
  "promoteTo value mem =
     (case (To value, KeyFrames value) of
        (None, Some a) \<Rightarrow>
          (case mapAt mem a 100 of
             Some val \<Rightarrow> (value\<lparr>To := val\<rparr>, deleteKey a 100 mem)
           | None \<Rightarrow> (value, mem))
      | _ \<Rightarrow> (value, mem))"

text \<open>
  The loop of the case \<^verbatim>\<open>[]AnimatedProperty\<close>, from the first entry to the last: the entries
  kept, in order, the messages logged, and the store of the maps, which every entry
  finds as the entries before it left it.
\<close>

fun keepValid :: "AnimatedProperty list \<Rightarrow> mapStore \<Rightarrow> AnimatedProperty list \<times> effect list \<times> mapStore" where
  "keepValid [] mem = ([], [], mem)"
| "keepValid (val # rest) mem =
     (let (val, mem) = promoteFrom val mem;
          (val, mem) = promoteTo val mem;
          (props, msgs, mem) = keepValid rest mem
      in
      if From val = None then (props, ErrorLog ''AnimatedProperty.From is nil'' # msgs, mem)
      else if To val = None then (props, ErrorLog ''AnimatedProperty.To is nil'' # msgs, mem)
      else (val # props, msgs, mem))"

text \<open>
  The closure \<^verbatim>\<open>parseObject\<close> of the case \<^verbatim>\<open>DataNode\<close>. The text of the error of
  \<^verbatim>\<open>strconv.Atoi\<close> is shortened to the name of the function and the text it read. The
  first keyframe is a map literal, a new map in the store.
\<close>

fun parseObject_loop :: "DataNode list \<Rightarrow> AnimatedProperty \<Rightarrow> effect list \<Rightarrow> mapStore \<Rightarrow> AnimatedProperty \<times> effect list \<times> mapStore" where
  "parseObject_loop [] result msgs mem = (result, msgs, mem)"
| "parseObject_loop (node # nodes) result msgs mem =
     (case node of
        TextNode tag text \<Rightarrow>
          (let propTag = strings_ToLower tag in
           if propTag \<in> set [''from'', ''0'', ''0%''] then
             parseObject_loop nodes (result\<lparr>From := Some (PString text)\<rparr>) msgs mem
           else if propTag \<in> set [''to'', ''100'', ''100%''] then
             parseObject_loop nodes (result\<lparr>To := Some (PString text)\<rparr>) msgs mem
           else
             (let tagLen = length propTag;
                  propTag = (if tagLen > 0 \<and> propTag ! (tagLen - 1) = CHR ''%''
                             then take (tagLen - 1) propTag else propTag)
              in case strconv_Atoi propTag of
                   None \<Rightarrow> parseObject_loop nodes result (msgs @ [ErrorLog (''strconv.Atoi: '' @ propTag)]) mem
                 | Some n \<Rightarrow>
                     if n < 0 \<or> n > 100 then
                       parseObject_loop nodes result
                         (msgs @ [ErrorLog (''key-frame '' @ [CHR 0x22] @ strconv_Itoa n @ [CHR 0x22] @ '' is out of range'')])
                         mem
                     else
                       (case KeyFrames result of
                          None \<Rightarrow>
                            (let (a, mem) = newMap [n \<mapsto> Some (PString text)] mem
                             in parseObject_loop nodes (result\<lparr>KeyFrames := Some a\<rparr>) msgs mem)
                        | Some a \<Rightarrow>
                            parseObject_loop nodes result msgs (assignKey a n (Some (PString text)) mem))))
      | _ \<Rightarrow> parseObject_loop nodes result msgs mem)"

definition parseObject :: "DataNode list \<Rightarrow> mapStore \<Rightarrow> AnimatedProperty \<times> bool \<times> effect list \<times> mapStore" where
  "parseObject obj mem =
     (let (result, msgs, mem) =
            parseObject_loop obj \<lparr>Tag = '''', From = None, To = None, KeyFrames = None\<rparr> [] mem
      in (result, From result \<noteq> None \<and> To result \<noteq> None, msgs, mem))"

text \<open>The loop over the elements of an array node.\<close>

fun parseArray :: "string \<Rightarrow> DataValue list \<Rightarrow> mapStore \<Rightarrow> AnimatedProperty list \<times> effect list \<times> mapStore" where
  "parseArray tag [] mem = ([], [], mem)"
| "parseArray tag (val # rest) mem =
     (case val of
        DataObject obj \<Rightarrow>
          (let (prop, ok, msgs, mem) = parseObject obj mem;
               (props, msgs', mem) = parseArray tag rest mem
           in if ok then (prop # props, msgs @ msgs', mem) else (props, msgs @ msgs', mem))
      | DataText _ \<Rightarrow>
          (let (props, msgs', mem) = parseArray tag rest mem
           in (props, NotCompatibleType tag # msgs', mem)))"

text \<open>
  \<^verbatim>\<open>animationData.Set\<close>. An animation has no session: the function returns its result, the
  animation, the messages it logs and the store of the maps of keyframes. The list that
  it stores under "property" refers to the maps of the caller.
\<close>

definition animationData_Set :: "ext \<Rightarrow> string \<Rightarrow> val option \<Rightarrow> animationData \<Rightarrow> mapStore \<Rightarrow> bool \<times> animationData \<times> effect list \<times> mapStore" where
  "animationData_Set ext tag0 value0 animation mem =
     (case value0 of
        None \<Rightarrow> (True, animationData_Remove tag0 animation, [], mem)
      | Some value \<Rightarrow>
          (let tag = animationData_normalizeTag tag0;
               store = (\<lambda>v. animation\<lparr>properties := (properties animation)(tag \<mapsto> v)\<rparr>)
           in
           if tag = ID then
             (case value of
                VPlain (PString text) \<Rightarrow>
                  (let text = strings_Trim text [CHR '' '', CHR 0x09, CHR 0x0A, CHR 0x0D] in
                   if text = '''' then (True, animation\<lparr>properties := (properties animation)(tag := None)\<rparr>, [], mem)
                   else (True, store (VPlain (PString text)), [], mem))
              | _ \<Rightarrow> (False, animation, [NotCompatibleType tag], mem))
           else if tag = PropertyTag then
             (case value of
                VAnimatedProperty value \<Rightarrow>
                  (let (value, mem) = promoteFrom value mem;
                       (value, mem) = promoteTo value mem
                   in
                   if From value = None then (False, animation, [ErrorLog ''AnimatedProperty.From is nil''], mem)
                   else if To value = None then (False, animation, [ErrorLog ''AnimatedProperty.To is nil''], mem)
                   else (True, store (VAnimatedProperties [value]), [], mem))
              | VAnimatedProperties value \<Rightarrow>
                  (let (props, msgs, mem) = keepValid value mem in
                   if length props > 0 then (True, store (VAnimatedProperties props), msgs, mem)
                   else (False, animation, msgs @ [ErrorLog ''[]AnimatedProperty is empty''], mem))
              | VDataNode value \<Rightarrow>
                  (case value of
                     ObjectNode _ obj \<Rightarrow>
                       (let (prop, ok, msgs, mem) = parseObject obj mem in
                        if ok then (True, store (VAnimatedProperties [prop]), msgs, mem)
                        else (False, animation, msgs, mem))
                   | ArrayNode _ elements \<Rightarrow>
                       (let (props, msgs, mem) = parseArray tag elements mem in
                        if length props > 0 then (True, store (VAnimatedProperties props), msgs, mem)
                        else (False, animation, msgs, mem))
                   | TextNode _ _ \<Rightarrow> (False, animation, [NotCompatibleType tag], mem))
              | _ \<Rightarrow> (False, animation, [NotCompatibleType tag], mem))
           else if tag = Duration then
             (let (ok, props) = setFloatProperty ext (properties animation) tag value Zero MaxFloat64
              in (ok, animation\<lparr>properties := props\<rparr>, [], mem))
           else if tag = Delay then
             (let (ok, props) = setFloatProperty ext (properties animation) tag value MinusMaxFloat64 MaxFloat64
              in (ok, animation\<lparr>properties := props\<rparr>, [], mem))
           else if tag = TimingFunction then
             (case value of
                VPlain (PString text) \<Rightarrow> (True, store (VPlain (PString text)), [], mem)
              | _ \<Rightarrow> (False, animation, [], mem))
           else if tag = IterationCount then
             (let (ok, props) = setIntProperty ext (properties animation) tag value
              in (ok, animation\<lparr>properties := props\<rparr>, [], mem))
           else if tag = AnimationDirection then
             (let (ok, props) = setEnumProperty ext (properties animation) AnimationDirection value animationDirection_values
              in (ok, animation\<lparr>properties := props\<rparr>, [], mem))
           else
             (False, animation,
              [ErrorLog (''The '' @ [CHR 0x22] @ tag @ [CHR 0x22] @ '' property is not supported by Animation'')],
              mem)))"

subsection \<open>Keyframes and the CSS text of an animation\<close>

text \<open>The verb \<^verbatim>\<open>%06d\<close>: at least six characters, filled with zeros after the sign.\<close>

definition fmt_06d :: "int \<Rightarrow> string" where
  "fmt_06d n =
     (if n < 0
      then CHR ''-'' # replicate (5 - length (natText (nat (- n)))) (CHR ''0'') @ natText (nat (- n))
      else replicate (6 - length (natText (nat n))) (CHR ''0'') @ natText (nat n))"

text \<open>\<^verbatim>\<open>strings.ReplaceAll\<close> of a newline by a backslash and the letter n.\<close>

definition escapeNewlines :: "string \<Rightarrow> string" where
  "escapeNewlines style = concat (map (\<lambda>c. if c = CHR 0x0A then [CHR 0x5C, CHR ''n''] else [c]) style)"

text \<open>
  \<^verbatim>\<open>sessionData.registerAnimation\<close>. The counter is an \<^verbatim>\<open>int\<close> of Go, here an unbounded
  integer.
\<close>

definition registerAnimation :: "ext \<Rightarrow> AnimatedProperty list \<Rightarrow> sessionData \<Rightarrow> string \<times> sessionData" where
  "registerAnimation ext props session0 =
     (let session1 = session0\<lparr>animationCounter := animationCounter session0 + 1\<rparr>;
          name = ''kf'' @ fmt_06d (animationCounter session1);
          style = keyframesStyle ext name props session1;
          session2 = session1\<lparr>animationCSS := animationCSS session1 @ style\<rparr>;
          style = escapeNewlines style
      in (name,
          runScript (''document.querySelector('' @ [CHR 0x27] @ ''style'' @ [CHR 0x27] @ '').textContent += ''
                     @ [CHR 0x22] @ style @ [CHR 0x22]) session2))"

text \<open>The text that \<^verbatim>\<open>animationCSS\<close> writes after the name of the keyframes.\<close>

definition animationData_shorthand :: "ext \<Rightarrow> animationData \<Rightarrow> sessionData \<Rightarrow> string" where
  "animationData_shorthand ext animation session0 =
     (let duration = fst (floatProperty ext (properties animation) Duration session0 1);
          delay = fst (floatProperty ext (properties animation) Delay session0 0);
          iterationCount = fst (intProperty ext (properties animation) IterationCount session0 0);
          direction = fst (enumProperty ext (properties animation) AnimationDirection session0 0);
          values = animationDirection_cssValues;
          direction = (if direction < 0 \<or> direction \<ge> int (length values) then 0 else direction)
      in (if duration > 0 then '' '' @ fmt_g ext duration @ ''s '' else '' 1s '')
         @ animationData_timingFunctionCSS ext animation session0
         @ (if delay > 0 then '' '' @ fmt_g ext delay @ ''s'' else '' 0s'')
         @ (if iterationCount \<ge> 0
            then '' '' @ strconv_Itoa (if iterationCount = 0 then 1 else iterationCount) @ '' ''
            else '' infinite '')
         @ values ! nat direction
         @ '' forwards'')"

text \<open>
  \<^verbatim>\<open>animationData.animationCSS\<close>: the text, the animation (its name may have been
  assigned) and the session.
\<close>

definition animationData_animationCSS :: "ext \<Rightarrow> animationData \<Rightarrow> sessionData \<Rightarrow> string \<times> animationData \<times> sessionData" where
  "animationData_animationCSS ext animation session0 =
     (if keyFramesName animation = '''' then
        (case getRaw animation PropertyTag of
           None \<Rightarrow> ('''', animation, logged (ErrorLog ''There are no animated properties.'') session0)
         | Some (VAnimatedProperties animatedProps) \<Rightarrow>
             (let (name, session1) = registerAnimation ext animatedProps session0;
                  animation = animation\<lparr>keyFramesName := name\<rparr>
              in (keyFramesName animation @ animationData_shorthand ext animation session1, animation, session1))
         | Some _ \<Rightarrow> ('''', animation, logged (ErrorLog ''Invalid animated properties.'') session0))
      else (keyFramesName animation @ animationData_shorthand ext animation session0, animation, session0))"

definition animationData_hasAnimatedPropery :: "animationData \<Rightarrow> bool \<times> effect list" where
  "animationData_hasAnimatedPropery animation =
     (case getRaw animation PropertyTag of
        None \<Rightarrow> (False, [ErrorLog ''There are no animated properties.''])
      | Some (VAnimatedProperties _) \<Rightarrow> (True, [])
      | Some _ \<Rightarrow> (False, [ErrorLog ''Invalid animated properties.'']))"

definition animationData_animationName :: "animationData \<Rightarrow> string" where
  "animationData_animationName animation = keyFramesName animation"

section \<open>Listeners of transitions and animations\<close>

text \<open>
  \<^verbatim>\<open>valueToAnimationListeners\<close>. The function returns a nil slice or a slice that is not
  empty, so the nil slice is the empty list here. In the three loops over a slice of
  functions of a reduced shape the closure refers to the loop variable; which element it
  calls depends on the version of Go (before 1.22 the variable is shared by the
  iterations and every closure calls the last element). Here every closure is built
  around the element of its own iteration, and no property below depends on it.
\<close>

fun wrapEach :: "(fnid option \<Rightarrow> listener) \<Rightarrow> fnid option list \<Rightarrow> listener list option" where
  "wrapEach wrap [] = Some []"
| "wrapEach wrap (v # vs) =
     (if v = None then None
      else (case wrapEach wrap vs of None \<Rightarrow> None | Some listeners \<Rightarrow> Some (wrap v # listeners)))"

fun wrapAny :: "val option list \<Rightarrow> listener list option" where
  "wrapAny [] = Some []"
| "wrapAny (v # vs) =
     (case v of
        None \<Rightarrow> None
      | Some (VFuncViewString l) \<Rightarrow>
          (case wrapAny vs of None \<Rightarrow> None | Some listeners \<Rightarrow> Some (l # listeners))
      | Some (VFuncString f) \<Rightarrow>
          (case wrapAny vs of None \<Rightarrow> None | Some listeners \<Rightarrow> Some (WrapString f # listeners))
      | Some (VFuncView f) \<Rightarrow>
          (case wrapAny vs of None \<Rightarrow> None | Some listeners \<Rightarrow> Some (WrapView f # listeners))
      | Some (VFunc0 f) \<Rightarrow>
          (case wrapAny vs of None \<Rightarrow> None | Some listeners \<Rightarrow> Some (Wrap0 f # listeners))
      | Some _ \<Rightarrow> None)"

definition valueToAnimationListeners :: "val option \<Rightarrow> listener list \<times> bool" where
  "valueToAnimationListeners value0 =
     (case value0 of
        None \<Rightarrow> ([], True)
      | Some value \<Rightarrow>
          (case value of
             VFuncViewString l \<Rightarrow> ([l], True)
           | VFuncString f \<Rightarrow> ([WrapString f], True)
           | VFuncView f \<Rightarrow> ([WrapView f], True)
           | VFunc0 f \<Rightarrow> ([Wrap0 f], True)
           | VFuncViewStrings ls \<Rightarrow>
               (if length ls = 0 then ([], True)
                else if NilFunc \<in> set ls then ([], False)
                else (ls, True))
           | VFuncStrings fs \<Rightarrow>
               (if length fs = 0 then ([], True)
                else (case wrapEach WrapString fs of None \<Rightarrow> ([], False) | Some listeners \<Rightarrow> (listeners, True)))
           | VFuncViews fs \<Rightarrow>
               (if length fs = 0 then ([], True)
                else (case wrapEach WrapView fs of None \<Rightarrow> ([], False) | Some listeners \<Rightarrow> (listeners, True)))
           | VFunc0s fs \<Rightarrow>
               (if length fs = 0 then ([], True)
                else (case wrapEach Wrap0 fs of None \<Rightarrow> ([], False) | Some listeners \<Rightarrow> (listeners, True)))
           | VAnys vs \<Rightarrow>
               (if length vs = 0 then ([], True)
                else (case wrapAny vs of None \<Rightarrow> ([], False) | Some listeners \<Rightarrow> (listeners, True)))
           | _ \<Rightarrow> ([], False)))"

definition transitionEvents :: "string \<rightharpoonup> string \<times> string" where
  "transitionEvents =
     [TransitionRunEvent \<mapsto> (''ontransitionrun'', ''transitionRunEvent''),
      TransitionStartEvent \<mapsto> (''ontransitionstart'', ''transitionStartEvent''),
      TransitionEndEvent \<mapsto> (''ontransitionend'', ''transitionEndEvent''),
      TransitionCancelEvent \<mapsto> (''ontransitioncancel'', ''transitionCancelEvent'')]"

definition animationEvents :: "string \<rightharpoonup> string \<times> string" where
  "animationEvents =
     [AnimationStartEvent \<mapsto> (''onanimationstart'', ''animationStartEvent''),
      AnimationEndEvent \<mapsto> (''onanimationend'', ''animationEndEvent''),
      AnimationIterationEvent \<mapsto> (''onanimationiteration'', ''animationIterationEvent''),
      AnimationCancelEvent \<mapsto> (''onanimationcancel'', ''animationCancelEvent'')]"

section \<open>view.go\<close>

definition onSession :: "(sessionData \<Rightarrow> sessionData) \<Rightarrow> viewData \<Rightarrow> viewData" where
  "onSession f view = view\<lparr>session := f (session view)\<rparr>"

text \<open>\<^verbatim>\<open>viewData.htmlID\<close>: the id, assigned from the session at the first call.\<close>

definition viewData_htmlID :: "ext \<Rightarrow> viewData \<Rightarrow> string \<times> viewData" where
  "viewData_htmlID ext view =
     (if htmlID_field view = '''' then
        (let (newID, session1) = nextViewID ext (session view);
             view = view\<lparr>session := session1, htmlID_field := newID\<rparr>
         in (htmlID_field view, view))
      else (htmlID_field view, view))"

definition htmlClass :: "ext \<Rightarrow> bool \<Rightarrow> viewData \<Rightarrow> string" where
  "htmlClass ext disabled view =
     (let cls = ''ruiView'';
          (cls, disabledStyle) =
            (if disabled then
               (let (value, ok) = stringProperty ext (properties view) StyleDisabled (session view) in
                if ok \<and> value \<noteq> '''' then (cls @ '' '' @ value, True) else (cls, False))
             else (cls, False));
          cls =
            (if \<not> disabledStyle then
               (let (value, ok) = stringProperty ext (properties view) Style (session view) in
                if ok then cls @ '' '' @ value else cls)
             else cls)
      in if systemClass view \<noteq> '''' then systemClass view @ '' '' @ cls else cls)"

subsection \<open>Listeners of transitions and animations on a view\<close>

definition removeTransitionListener :: "ext \<Rightarrow> string \<Rightarrow> viewData \<Rightarrow> viewData" where
  "removeTransitionListener ext tag view0 =
     (let view = view0\<lparr>properties := (properties view0)(tag := None)\<rparr> in
      if created view then
        (case transitionEvents tag of
           Some (jsEvent, jsFunc) \<Rightarrow>
             (let (htmlID, view) = viewData_htmlID ext view in onSession (removeProperty htmlID jsEvent) view)
         | None \<Rightarrow> view)
      else view)"

definition setTransitionListener :: "ext \<Rightarrow> string \<Rightarrow> val option \<Rightarrow> viewData \<Rightarrow> bool \<times> viewData" where
  "setTransitionListener ext tag value view0 =
     (let (listeners, ok) = valueToAnimationListeners value in
      if \<not> ok then (False, onSession (logged (NotCompatibleType tag)) view0)
      else if listeners = [] then (True, removeTransitionListener ext tag view0)
      else
        (case transitionEvents tag of
           Some (jsEvent, jsFunc) \<Rightarrow>
             (let view = view0\<lparr>properties := (properties view0)(tag \<mapsto> VFuncViewStrings listeners)\<rparr> in
              if created view then
                (let (htmlID, view) = viewData_htmlID ext view in
                 (True, onSession (updateProperty htmlID jsEvent (jsFunc @ ''(this, event)'')) view))
              else (True, view))
         | None \<Rightarrow> (False, view0)))"

definition removeAnimationListener :: "ext \<Rightarrow> string \<Rightarrow> viewData \<Rightarrow> viewData" where
  "removeAnimationListener ext tag view0 =
     (let view = view0\<lparr>properties := (properties view0)(tag := None)\<rparr> in
      if created view then
        (case animationEvents tag of
           Some (jsEvent, jsFunc) \<Rightarrow>
             (let (htmlID, view) = viewData_htmlID ext view in onSession (removeProperty htmlID jsEvent) view)
         | None \<Rightarrow> view)
      else view)"

definition setAnimationListener :: "ext \<Rightarrow> string \<Rightarrow> val option \<Rightarrow> viewData \<Rightarrow> bool \<times> viewData" where
  "setAnimationListener ext tag value view0 =
     (let (listeners, ok) = valueToAnimationListeners value in
      if \<not> ok then (False, onSession (logged (NotCompatibleType tag)) view0)
      else if listeners = [] then (True, removeAnimationListener ext tag view0)
      else
        (case animationEvents tag of
           Some (jsEvent, jsFunc) \<Rightarrow>
             (let view = view0\<lparr>properties := (properties view0)(tag \<mapsto> VFuncViewStrings listeners)\<rparr> in
              if created view then
                (let (htmlID, view) = viewData_htmlID ext view in
                 (True, onSession (updateProperty htmlID jsEvent (jsFunc @ ''(this, event)'')) view))
              else (True, view))
         | None \<Rightarrow> (False, view0)))"

subsection \<open>Propagation of a change\<close>

text \<open>\<^verbatim>\<open>viewData.updateTransitionCSS\<close> (animation.go).\<close>

definition updateTransitionCSS :: "ext \<Rightarrow> viewData \<Rightarrow> viewData" where
  "updateTransitionCSS ext view0 =
     (let (htmlID, view) = viewData_htmlID ext view0 in
      onSession (updateCSSProperty htmlID ''transition'' (transitionCSS ext view)) view)"

definition propertyChangedEvent :: "string \<Rightarrow> viewData \<Rightarrow> viewData" where
  "propertyChangedEvent tag0 view0 =
     (let view = (case changeListener view0 tag0 of
                    Some listener \<Rightarrow> onSession (logged (Invoke listener tag0)) view0
                  | None \<Rightarrow> view0);
          group =
            (if tag0 \<in> set [BorderLeft, BorderRight, BorderTop, BorderBottom,
                  BorderStyle, BorderLeftStyle, BorderRightStyle, BorderTopStyle, BorderBottomStyle,
                  BorderColor, BorderLeftColor, BorderRightColor, BorderTopColor, BorderBottomColor,
                  BorderWidth, BorderLeftWidth, BorderRightWidth, BorderTopWidth, BorderBottomWidth]
             then Some Border
             else if tag0 \<in> set [CellBorderStyle, CellBorderColor, CellBorderWidth,
                  CellBorderLeft, CellBorderLeftStyle, CellBorderLeftColor, CellBorderLeftWidth,
                  CellBorderRight, CellBorderRightStyle, CellBorderRightColor, CellBorderRightWidth,
                  CellBorderTop, CellBorderTopStyle, CellBorderTopColor, CellBorderTopWidth,
                  CellBorderBottom, CellBorderBottomStyle, CellBorderBottomColor, CellBorderBottomWidth]
             then Some CellBorder
             else if tag0 \<in> set [OutlineColor, OutlineStyle, OutlineWidth] then Some Outline
             else if tag0 \<in> set [RadiusX, RadiusY, RadiusTopLeft, RadiusTopLeftX, RadiusTopLeftY,
                  RadiusTopRight, RadiusTopRightX, RadiusTopRightY,
                  RadiusBottomLeft, RadiusBottomLeftX, RadiusBottomLeftY,
                  RadiusBottomRight, RadiusBottomRightX, RadiusBottomRightY]
             then Some Radius
             else if tag0 \<in> set [MarginTop, MarginRight, MarginBottom, MarginLeft,
                  ''top-margin'', ''right-margin'', ''bottom-margin'', ''left-margin'']
             then Some Margin
             else if tag0 \<in> set [PaddingTop, PaddingRight, PaddingBottom, PaddingLeft,
                  ''top-padding'', ''right-padding'', ''bottom-padding'', ''left-padding'']
             then Some Padding
             else if tag0 \<in> set [CellPaddingTop, CellPaddingRight, CellPaddingBottom, CellPaddingLeft]
             then Some CellPadding
             else if tag0 \<in> set [ColumnSeparatorStyle, ColumnSeparatorWidth, ColumnSeparatorColor]
             then Some ColumnSeparator
             else None)
      in case group of
           None \<Rightarrow> view
         | Some tag \<Rightarrow>
             (case changeListener view tag of
                Some listener \<Rightarrow> onSession (logged (Invoke listener tag)) view
              | None \<Rightarrow> view))"

text \<open>
  \<^verbatim>\<open>viewPropertyChanged\<close>. The function calls itself only for the three tags of text
  decoration, on three tags that are not among them. Its body is written once, with the
  function to call there as the argument \<open>self\<close>, and \<open>viewPropertyChanged\<close> is the body
  with the body as \<open>self\<close>.
\<close>

definition viewPropertyChanged_body :: "ext \<Rightarrow> (viewData \<Rightarrow> string \<Rightarrow> viewData) \<Rightarrow> viewData \<Rightarrow> string \<Rightarrow> viewData" where
  "viewPropertyChanged_body ext self view0 tag =
     (let (handled, view1) = updateTransformProperty ext tag view0 in
      if handled then view1
      else
        (let (htmlID, view) = viewData_htmlID ext view1;
             css = (\<lambda>property value. onSession (updateCSSProperty htmlID property value))
         in
         if tag = Disabled then onSession (updateInnerHTML (parentID view)) view
         else if tag = Visibility then
           (let visibility = GetVisibility ext view in
            if visibility = Invisible then
              (let view = css Visibility ''hidden'' view in css ''display'' '''' view)
            else if visibility = Gone then
              (let view = css Visibility ''hidden'' view in css ''display'' ''none'' view)
            else
              (let view = css Visibility ''visible'' view in css ''display'' '''' view))
         else if tag = Background then css Background (backgroundCSS ext view) view
         else if tag = Border \<and> getBorder ext view Border = None then
           (let view = css BorderWidth '''' view;
                view = css BorderColor '''' view
            in css BorderStyle ''none'' view)
         else if tag \<in> set [Border, BorderLeft, BorderRight, BorderTop, BorderBottom] then
           (case getBorder ext view Border of
              Some border \<Rightarrow>
                (let view = css BorderWidth (cssWidthValue border) view;
                     view = css BorderColor (cssColorValue border) view
                 in css BorderStyle (cssStyleValue border) view)
            | None \<Rightarrow> view)
         else if tag \<in> set [BorderStyle, BorderLeftStyle, BorderRightStyle, BorderTopStyle, BorderBottomStyle] then
           (case getBorder ext view Border of
              Some border \<Rightarrow> css BorderStyle (cssStyleValue border) view
            | None \<Rightarrow> view)
         else if tag \<in> set [BorderColor, BorderLeftColor, BorderRightColor, BorderTopColor, BorderBottomColor] then
           (case getBorder ext view Border of
              Some border \<Rightarrow> css BorderColor (cssColorValue border) view
            | None \<Rightarrow> view)
         else if tag \<in> set [BorderWidth, BorderLeftWidth, BorderRightWidth, BorderTopWidth, BorderBottomWidth] then
           (case getBorder ext view Border of
              Some border \<Rightarrow> css BorderWidth (cssWidthValue border) view
            | None \<Rightarrow> view)
         else if tag \<in> set [Outline, OutlineColor, OutlineStyle, OutlineWidth] then
           css Outline (outlineCSS ext view) view
         else if tag = Shadow then css ''box-shadow'' (shadowCSS ext view Shadow) view
         else if tag = TextShadow then css ''text-shadow'' (shadowCSS ext view TextShadow) view
         else if tag \<in> set [Radius, RadiusX, RadiusY, RadiusTopLeft, RadiusTopLeftX, RadiusTopLeftY,
                  RadiusTopRight, RadiusTopRightX, RadiusTopRightY,
                  RadiusBottomLeft, RadiusBottomLeftX, RadiusBottomLeftY,
                  RadiusBottomRight, RadiusBottomRightX, RadiusBottomRightY] then
           css ''border-radius'' (radiusCSS ext view) view
         else if tag \<in> set [Margin, MarginTop, MarginRight, MarginBottom, MarginLeft,
                  ''top-margin'', ''right-margin'', ''bottom-margin'', ''left-margin''] then
           css Margin (marginCSS ext view) view
         else if tag \<in> set [Padding, PaddingTop, PaddingRight, PaddingBottom, PaddingLeft,
                  ''top-padding'', ''right-padding'', ''bottom-padding'', ''left-padding''] then
           css Padding (paddingCSS ext view) view
         else if tag = AvoidBreak then
           (let (avoid, ok) = boolProperty ext (properties view) AvoidBreak (session view) in
            if ok then
              (if avoid then css ''break-inside'' ''avoid'' view else css ''break-inside'' ''auto'' view)
            else view)
         else if tag = Clip then
           (case clipShapeCSS ext view Clip of
              Some style \<Rightarrow> css ''clip-path'' style view
            | None \<Rightarrow> css ''clip-path'' ''none'' view)
         else if tag = ShapeOutside then
           (case clipShapeCSS ext view ShapeOutside of
              Some style \<Rightarrow> css ShapeOutside style view
            | None \<Rightarrow> css ShapeOutside ''none'' view)
         else if tag = Filter then
           (let text = (case getRaw view tag of
                          Some value \<Rightarrow> (case filterCSS ext value (session view) of Some style \<Rightarrow> style | None \<Rightarrow> '''')
                        | None \<Rightarrow> '''')
            in css tag text view)
         else if tag = BackdropFilter then
           (let text = (case getRaw view tag of
                          Some value \<Rightarrow> (case filterCSS ext value (session view) of Some style \<Rightarrow> style | None \<Rightarrow> '''')
                        | None \<Rightarrow> '''');
                view = css ''-webkit-backdrop-filter'' text view
            in css tag text view)
         else if tag = FontName then
           (let (font, ok) = stringProperty ext (properties view) FontName (session view) in
            if ok then css ''font-family'' font view else css ''font-family'' '''' view)
         else if tag = Italic then
           (let (state, ok) = boolProperty ext (properties view) tag (session view) in
            if ok then
              (if state then css ''font-style'' ''italic'' view else css ''font-style'' ''normal'' view)
            else css ''font-style'' '''' view)
         else if tag = SmallCaps then
           (let (state, ok) = boolProperty ext (properties view) tag (session view) in
            if ok then
              (if state then css ''font-variant'' ''small-caps'' view else css ''font-variant'' ''normal'' view)
            else css ''font-variant'' '''' view)
         else if tag \<in> set [Strikethrough, Overline, Underline] then
           (let view = css ''text-decoration'' (cssTextDecoration ext view) view in
            foldl self view [TextLineColor, TextLineStyle, TextLineThickness])
         else if tag = Transition then updateTransitionCSS ext view
         else if tag = AnimationTag then
           (let (text, view) = viewStyle_animationCSS ext view in css AnimationTag text view)
         else if tag = AnimationPaused then
           (let (paused, ok) = boolProperty ext (properties view) AnimationPaused (session view) in
            if \<not> ok then css ''animation-play-state'' '''' view
            else if paused then css ''animation-play-state'' ''paused'' view
            else css ''animation-play-state'' ''running'' view)
         else if tag = ZIndex then
           (let (i, ok) = intProperty ext (properties view) ZIndex (session view) 0 in
            if ok then css ZIndex (strconv_Itoa i) view else view)
         else if tag \<in> set [Row, Column] then
           (if parentID view \<noteq> '''' then onSession (updateInnerHTML (parentID view)) view else view)
         else
           (case sizeProperties ext tag of
              Some cssName \<Rightarrow> css cssName (sizePropertyCSS ext view tag) view
            | None \<Rightarrow>
                (case [BackgroundColor \<mapsto> BackgroundColor, TextColor \<mapsto> ''color'',
                       TextLineColor \<mapsto> ''text-decoration-color'', CaretColor \<mapsto> CaretColor] tag of
                   Some cssName \<Rightarrow>
                     (let (color, ok) = colorPropertyCSS ext view tag in
                      if ok then css cssName color view else css cssName '''' view)
                 | None \<Rightarrow>
                     (let valuesData = enumProperties ext tag in
                      if valuesData \<noteq> None \<and> enumInfo.cssTag (the valuesData) \<noteq> '''' then
                        (let n = fst (enumProperty ext (properties view) tag (session view) 0) in
                         if 0 \<le> n \<and> nat n < length (cssValues (the valuesData))
                         then css (enumInfo.cssTag (the valuesData)) (cssValues (the valuesData) ! nat n) view
                         else onSession (logged (Panic ''index out of range'')) view)
                      else if tag \<in> set [Opacity, ScaleX, ScaleY, ScaleZ, RotateX, RotateY, RotateZ] then
                        (let (f, ok) = floatProperty ext (properties view) tag (session view) 0 in
                         if ok then css tag (formatFloat ext f) view else view)
                      else view)))))"

definition viewPropertyChanged :: "ext \<Rightarrow> viewData \<Rightarrow> string \<Rightarrow> viewData" where
  "viewPropertyChanged ext =
     viewPropertyChanged_body ext (viewPropertyChanged_body ext (\<lambda>view tag. view))"

subsection \<open>Remove, Set and Get\<close>

definition viewData_remove :: "ext \<Rightarrow> string \<Rightarrow> viewData \<Rightarrow> viewData" where
  "viewData_remove ext tag view0 =
     (let view =
        (if tag = ID then view0\<lparr>viewID := ''''\<rparr>
         else if tag = UserData then view0\<lparr>properties := (properties view0)(tag := None)\<rparr>
         else if tag \<in> set [Style, StyleDisabled] then
           (if properties view0 tag \<noteq> None then
              (let view = view0\<lparr>properties := (properties view0)(tag := None)\<rparr>;
                   (htmlID, view) = viewData_htmlID ext view
               in onSession (updateProperty htmlID ''class'' (htmlClass ext (IsDisabled ext view) view)) view)
            else view0)
         else if tag \<in> set [FocusEvent, LostFocusEvent] then removeFocusListener ext tag view0
         else if tag \<in> set [KeyDownEvent, KeyUpEvent] then removeKeyListener ext tag view0
         else if tag \<in> set [ClickEvent, DoubleClickEvent, MouseDown, MouseUp, MouseMove, MouseOut,
                  MouseOver, ContextMenuEvent] then removeMouseListener ext tag view0
         else if tag \<in> set [PointerDown, PointerUp, PointerMove, PointerOut, PointerOver, PointerCancel]
           then removePointerListener ext tag view0
         else if tag \<in> set [TouchStart, TouchEnd, TouchMove, TouchCancel] then removeTouchListener ext tag view0
         else if tag \<in> set [TransitionRunEvent, TransitionStartEvent, TransitionEndEvent, TransitionCancelEvent]
           then removeTransitionListener ext tag view0
         else if tag \<in> set [AnimationStartEvent, AnimationEndEvent, AnimationIterationEvent, AnimationCancelEvent]
           then removeAnimationListener ext tag view0
         else if tag \<in> set [ResizeEvent, ScrollEvent] then view0\<lparr>properties := (properties view0)(tag := None)\<rparr>
         else if tag = Content then
           (if properties view0 Content \<noteq> None then
              (let view = view0\<lparr>properties := (properties view0)(Content := None)\<rparr>;
                   (htmlID, view) = viewData_htmlID ext view
               in onSession (updateInnerHTML htmlID) view)
            else view0)
         else viewPropertyChanged ext (viewStyle_remove ext tag view0) tag)
      in propertyChangedEvent tag view)"

definition viewData_Remove :: "ext \<Rightarrow> string \<Rightarrow> viewData \<Rightarrow> viewData" where
  "viewData_Remove ext tag view = viewData_remove ext (strings_ToLower tag) view"

definition viewData_set :: "ext \<Rightarrow> string \<Rightarrow> val option \<Rightarrow> viewData \<Rightarrow> bool \<times> viewData" where
  "viewData_set ext tag value0 view0 =
     (case value0 of
        None \<Rightarrow> (True, viewData_remove ext tag view0)
      | Some value \<Rightarrow>
          (let result = (\<lambda>(res, view). if res then (res, propertyChangedEvent tag view) else (res, view)) in
           if tag = ID then
             (case value of
                VPlain (PString text) \<Rightarrow> (True, propertyChangedEvent tag (view0\<lparr>viewID := text\<rparr>))
              | _ \<Rightarrow> (False, onSession (logged (NotCompatibleType ID)) view0))
           else if tag = UserData then
             (True, propertyChangedEvent tag (view0\<lparr>properties := (properties view0)(tag \<mapsto> value)\<rparr>))
           else if tag \<in> set [Style, StyleDisabled] then
             (case value of
                VPlain (PString text) \<Rightarrow>
                  (let view = view0\<lparr>properties := (properties view0)(tag \<mapsto> VPlain (PString text))\<rparr>;
                       view =
                         (if created view then
                            (let (htmlID, view) = viewData_htmlID ext view in
                             onSession (updateProperty htmlID ''class'' (htmlClass ext (IsDisabled ext view) view)) view)
                          else view)
                   in (True, propertyChangedEvent tag view))
              | _ \<Rightarrow> (False, onSession (logged (NotCompatibleType ID)) view0))
           else if tag \<in> set [FocusEvent, LostFocusEvent] then result (setFocusListener ext tag value view0)
           else if tag \<in> set [KeyDownEvent, KeyUpEvent] then result (setKeyListener ext tag value view0)
           else if tag \<in> set [ClickEvent, DoubleClickEvent, MouseDown, MouseUp, MouseMove, MouseOut,
                    MouseOver, ContextMenuEvent] then result (setMouseListener ext tag value view0)
           else if tag \<in> set [PointerDown, PointerUp, PointerMove, PointerOut, PointerOver, PointerCancel]
             then result (setPointerListener ext tag value view0)
           else if tag \<in> set [TouchStart, TouchEnd, TouchMove, TouchCancel]
             then result (setTouchListener ext tag value view0)
           else if tag \<in> set [TransitionRunEvent, TransitionStartEvent, TransitionEndEvent, TransitionCancelEvent]
             then result (setTransitionListener ext tag (Some value) view0)
           else if tag \<in> set [AnimationStartEvent, AnimationEndEvent, AnimationIterationEvent, AnimationCancelEvent]
             then result (setAnimationListener ext tag (Some value) view0)
           else if tag \<in> set [ResizeEvent, ScrollEvent] then result (setFrameListener ext tag value view0)
           else
             (let (ok, view) = viewStyle_set ext tag value view0 in
              if \<not> ok then (False, view)
              else
                (let view = (if created view then viewPropertyChanged ext view tag else view)
                 in (True, propertyChangedEvent tag view)))))"

definition viewData_Set :: "ext \<Rightarrow> string \<Rightarrow> val option \<Rightarrow> viewData \<Rightarrow> bool \<times> viewData" where
  "viewData_Set ext tag value view = viewData_set ext (strings_ToLower tag) value view"

definition viewData_get :: "ext \<Rightarrow> string \<Rightarrow> viewData \<Rightarrow> val option" where
  "viewData_get ext tag view =
     (if tag = ID then
        (if viewID view \<noteq> '''' then Some (VPlain (PString (viewID view))) else None)
      else viewStyle_get ext tag view)"

definition viewData_Get :: "ext \<Rightarrow> string \<Rightarrow> viewData \<Rightarrow> val option" where
  "viewData_Get ext tag view = viewData_get ext (strings_ToLower tag) view"

definition SetChangeListener :: "string \<Rightarrow> listener \<Rightarrow> viewData \<Rightarrow> viewData" where
  "SetChangeListener tag listener view =
     (if listener = NilFunc then view\<lparr>changeListener := (changeListener view)(tag := None)\<rparr>
      else view\<lparr>changeListener := (changeListener view)(tag \<mapsto> listener)\<rparr>)"

section \<open>Transitions\<close>

text \<open>
  \<^verbatim>\<open>getAnimationListeners\<close>. A view that may be nil is an
  option.
\<close>

definition getAnimationListeners :: "ext \<Rightarrow> viewData option \<Rightarrow> string \<Rightarrow> string \<Rightarrow> listener list" where
  "getAnimationListeners ext view0 subviewID tag =
     (let view = (if subviewID \<noteq> '''' then ViewByID ext view0 subviewID else view0) in
      case view of
        Some v \<Rightarrow>
          (case viewData_Get ext tag v of
             Some (VFuncViewStrings result) \<Rightarrow> result
           | _ \<Rightarrow> [])
      | None \<Rightarrow> [])"

text \<open>
  \<^verbatim>\<open>viewData.handleTransitionEvents\<close>. The data of an event is a bag of named texts;
  \<^verbatim>\<open>data.PropertyValue(name)\<close> reads one.
\<close>

definition handleTransitionEvents :: "ext \<Rightarrow> string \<Rightarrow> (string \<rightharpoonup> string) \<Rightarrow> viewData \<Rightarrow> viewData" where
  "handleTransitionEvents ext tag data view0 =
     (case data ''property'' of
        None \<Rightarrow> view0
      | Some property \<Rightarrow>
          (let view =
             (if tag = TransitionEndEvent \<or> tag = TransitionCancelEvent then
                (case singleTransition view0 property of
                   Some animation \<Rightarrow>
                     (let view = view0\<lparr>singleTransition := (singleTransition view0)(property := None)\<rparr>;
                          view = (if animation \<noteq> None
                                  then view\<lparr>transitions := (transitions view)(property \<mapsto> animation)\<rparr>
                                  else view\<lparr>transitions := (transitions view)(property := None)\<rparr>)
                      in updateTransitionCSS ext view)
                 | None \<Rightarrow> view0)
              else view0)
           in foldl (\<lambda>view listener. onSession (logged (Invoke listener property)) view) view
                (getAnimationListeners ext (Some view) '''' tag)))"

text \<open>\<^verbatim>\<open>viewData.SetAnimated\<close> (animation.go).\<close>

definition viewData_SetAnimated :: "ext \<Rightarrow> string \<Rightarrow> val option \<Rightarrow> Animation \<Rightarrow> viewData \<Rightarrow> bool \<times> viewData" where
  "viewData_SetAnimated ext tag value animation view0 =
     (if animation = None then viewData_Set ext tag value view0
      else
        (let (htmlID, view) = viewData_htmlID ext view0;
             view = onSession (updateProperty htmlID ''ontransitionend'' ''transitionEndEvent(this, event)'') view;
             (htmlID, view) = viewData_htmlID ext view;
             view = onSession (updateProperty htmlID ''ontransitioncancel'' ''transitionCancelEvent(this, event)'') view;
             view = (case transitions view tag of
                       Some prevAnimation \<Rightarrow> view\<lparr>singleTransition := (singleTransition view)(tag \<mapsto> prevAnimation)\<rparr>
                     | None \<Rightarrow> view\<lparr>singleTransition := (singleTransition view)(tag \<mapsto> None)\<rparr>);
             view = view\<lparr>transitions := (transitions view)(tag \<mapsto> animation)\<rparr>;
             view = updateTransitionCSS ext view;
             (result, view) = viewData_Set ext tag value view
         in if \<not> result then
              (let view = view\<lparr>singleTransition := (singleTransition view)(tag := None)\<rparr>
               in (result, updateTransitionCSS ext view))
            else (result, view)))"

text \<open>\<^verbatim>\<open>viewData.getTransitions\<close>: a new \<^verbatim>\<open>Params\<close> with the entries of the map of transitions.\<close>

definition getTransitions :: "viewData \<Rightarrow> (string \<Rightarrow> val option option)" where
  "getTransitions view =
     (\<lambda>tag. case transitions view tag of
               None \<Rightarrow> None
             | Some animation \<Rightarrow> Some (map_option VAnimation animation))"

text \<open>
  The functions of the package on a root view and the id of a subview. A function that
  writes to a view returns, beside its result, the view it wrote to with its new state,
  and \<open>None\<close> when it wrote to no view.
\<close>

definition SetAnimated :: "ext \<Rightarrow> viewData option \<Rightarrow> string \<Rightarrow> string \<Rightarrow> val option \<Rightarrow> Animation \<Rightarrow> bool \<times> viewData option" where
  "SetAnimated ext rootView subviewID tag value animation =
     (case ViewByID ext rootView subviewID of
        Some view \<Rightarrow> (let (result, view) = viewData_SetAnimated ext tag value animation view in (result, Some view))
      | None \<Rightarrow> (False, None))"

definition GetTransition :: "ext \<Rightarrow> viewData option \<Rightarrow> string \<Rightarrow> (string \<Rightarrow> val option option)" where
  "GetTransition ext view0 subviewID =
     (let view = (if subviewID \<noteq> '''' then ViewByID ext view0 subviewID else view0) in
      case view of
        Some v \<Rightarrow> getTransitions v
      | None \<Rightarrow> Map.empty)"

definition AddTransition :: "ext \<Rightarrow> viewData option \<Rightarrow> string \<Rightarrow> string \<Rightarrow> Animation \<Rightarrow> bool \<times> viewData option" where
  "AddTransition ext view0 subviewID tag animation =
     (if tag = '''' then (False, None)
      else
        (let view = (if subviewID \<noteq> '''' then ViewByID ext view0 subviewID else view0) in
         case view of
           None \<Rightarrow> (False, None)
         | Some v \<Rightarrow>
             (let transitions = (getTransitions v)(tag \<mapsto> map_option VAnimation animation);
                  (result, v) = viewData_Set ext Transition (Some (VParams transitions)) v
              in (result, Some v))))"

section \<open>The drop-down list\<close>

definition withView :: "(viewData \<Rightarrow> viewData) \<Rightarrow> dropDownListData \<Rightarrow> dropDownListData" where
  "withView f list = list\<lparr>viewData := f (viewData list)\<rparr>"

definition onSelectedItemChanged :: "int \<Rightarrow> dropDownListData \<Rightarrow> dropDownListData" where
  "onSelectedItemChanged number list0 =
     (let list = foldl (\<lambda>list listener. withView (onSession (logged (InvokeDropDown listener number))) list)
                   list0 (dropDownListener list0)
      in withView (propertyChangedEvent Current) list)"

text \<open>The script that selects an item: \<^verbatim>\<open>selectDropDownListItem('%s', %d)\<close>.\<close>

definition selectScript :: "string \<Rightarrow> int \<Rightarrow> string" where
  "selectScript htmlID number =
     ''selectDropDownListItem('' @ [CHR 0x27] @ htmlID @ [CHR 0x27] @ '', '' @ strconv_Itoa number @ '')''"

definition list_updateInnerHTML :: "ext \<Rightarrow> dropDownListData \<Rightarrow> dropDownListData" where
  "list_updateInnerHTML ext list =
     (let (htmlID, view) = viewData_htmlID ext (viewData list)
      in list\<lparr>viewData := onSession (updateInnerHTML htmlID) view\<rparr>)"

definition list_selectItem :: "ext \<Rightarrow> int \<Rightarrow> dropDownListData \<Rightarrow> dropDownListData" where
  "list_selectItem ext number list =
     (let (htmlID, view) = viewData_htmlID ext (viewData list)
      in list\<lparr>viewData := onSession (runScript (selectScript htmlID number)) view\<rparr>)"

definition dropDownListData_remove :: "ext \<Rightarrow> string \<Rightarrow> dropDownListData \<Rightarrow> dropDownListData" where
  "dropDownListData_remove ext tag list0 =
     (if tag = Items then
        (if length (items list0) > 0 then
           (let list = list0\<lparr>items := []\<rparr>;
                list = (if created (viewData list) then list_updateInnerHTML ext list else list)
            in withView (propertyChangedEvent tag) list)
         else list0)
      else if tag = DisabledItems then
        (if length (disabledItems list0) > 0 then
           (let list = list0\<lparr>disabledItems := []\<rparr>;
                list = (if created (viewData list) then list_updateInnerHTML ext list else list)
            in withView (propertyChangedEvent tag) list)
         else list0)
      else if tag = DropDownEvent then
        (if length (dropDownListener list0) > 0 then
           (let list = list0\<lparr>dropDownListener := []\<rparr>
            in withView (propertyChangedEvent tag) list)
         else list0)
      else if tag = Current then
        (let oldCurrent = GetCurrent ext list0;
             list = withView (\<lambda>view. view\<lparr>properties := (properties view)(Current := None)\<rparr>) list0
         in if oldCurrent \<noteq> 0 then
              (let list = (if created (viewData list) then list_selectItem ext 0 list else list)
               in onSelectedItemChanged 0 list)
            else list)
      else withView (viewData_remove ext tag) list0)"

definition dropDownListData_Remove :: "ext \<Rightarrow> string \<Rightarrow> dropDownListData \<Rightarrow> dropDownListData" where
  "dropDownListData_Remove ext tag list = dropDownListData_remove ext (strings_ToLower tag) list"

definition dropDownListData_set :: "ext \<Rightarrow> string \<Rightarrow> val option \<Rightarrow> dropDownListData \<Rightarrow> bool \<times> dropDownListData" where
  "dropDownListData_set ext tag value0 list0 =
     (case value0 of
        None \<Rightarrow> (True, dropDownListData_remove ext tag list0)
      | Some value \<Rightarrow>
          (if tag = Items then setItems ext value list0
           else if tag = DisabledItems then setDisabledItems ext value list0
           else if tag = DropDownEvent then setDropDownListener ext value list0
           else if tag = Current then
             (let oldCurrent = GetCurrent ext list0;
                  (ok, props) = setIntProperty ext (properties (viewData list0)) Current value;
                  list = withView (\<lambda>view. view\<lparr>properties := props\<rparr>) list0
              in if \<not> ok then (False, list)
                 else
                   (let current = GetCurrent ext list in
                    if oldCurrent \<noteq> current then
                      (let list = (if created (viewData list) then list_selectItem ext current list else list)
                       in (True, onSelectedItemChanged current list))
                    else (True, list)))
           else
             (let (result, view) = viewData_set ext tag (Some value) (viewData list0)
              in (result, list0\<lparr>viewData := view\<rparr>))))"

definition dropDownListData_Set :: "ext \<Rightarrow> string \<Rightarrow> val option \<Rightarrow> dropDownListData \<Rightarrow> bool \<times> dropDownListData" where
  "dropDownListData_Set ext tag value list = dropDownListData_set ext (strings_ToLower tag) value list"

section \<open>An instance of the code in other files\<close>

text \<open>
  A plain instance of the parameters, on which the functions above can be run: numbers
  are read from and written to the properties as they are, constants resolve to
  themselves, a border is configured when the property "border" is set, the base style
  stores plain values and the transitions of a \<^verbatim>\<open>Params\<close>, and a listener of a family
  declared in another file is one canonical function.
\<close>

definition decimalNumeral :: "string \<Rightarrow> bool" where
  "decimalNumeral s =
     (let ds = filter (\<lambda>c. c \<noteq> CHR ''.'') s
      in ds \<noteq> [] \<and> list_all isDigit ds \<and> length s \<le> length ds + 1)"

definition storeListener :: "string \<Rightarrow> val \<Rightarrow> viewData \<Rightarrow> bool \<times> viewData" where
  "storeListener tag value view =
     (case value of
        VFuncViewString l \<Rightarrow> (True, view\<lparr>properties := (properties view)(tag \<mapsto> VFuncViewStrings [l])\<rparr>)
      | _ \<Rightarrow> (False, view))"

definition dropProperty :: "string \<Rightarrow> viewData \<Rightarrow> viewData" where
  "dropProperty tag view = view\<lparr>properties := (properties view)(tag := None)\<rparr>"

definition plainStyleSet :: "string \<Rightarrow> val \<Rightarrow> viewData \<Rightarrow> bool \<times> viewData" where
  "plainStyleSet tag value view =
     (case value of
        VPlain p \<Rightarrow> (True, view\<lparr>properties := (properties view)(tag \<mapsto> value)\<rparr>)
      | VParams ps \<Rightarrow>
          (if tag = Transition then
             (True, view\<lparr>transitions :=
                (\<lambda>k. case ps k of Some (Some (VAnimation a)) \<Rightarrow> Some (Some a) | _ \<Rightarrow> None)\<rparr>)
           else (False, view))
      | _ \<Rightarrow> (False, view))"

definition ext0 :: ext where
  "ext0 = \<lparr>
     parseFloat = decimalNumeral,
     fmt_g = (\<lambda>r. strconv_Itoa \<lfloor>r\<rfloor>),
     formatFloat = (\<lambda>r. strconv_Itoa \<lfloor>r\<rfloor>),
     setFloatProperty = (\<lambda>props tag value lo hi.
        case value of VPlain (PFloat r) \<Rightarrow> (True, props(tag \<mapsto> value)) | _ \<Rightarrow> (False, props)),
     setIntProperty = (\<lambda>props tag value.
        case value of VPlain (PInt i) \<Rightarrow> (True, props(tag \<mapsto> value)) | _ \<Rightarrow> (False, props)),
     setEnumProperty = (\<lambda>props tag value values.
        case value of
          VPlain (PInt i) \<Rightarrow> if 0 \<le> i \<and> nat i < length values then (True, props(tag \<mapsto> value)) else (False, props)
        | _ \<Rightarrow> (False, props)),
     floatProperty = (\<lambda>props tag s d. case props tag of Some (VPlain (PFloat r)) \<Rightarrow> (r, True) | _ \<Rightarrow> (d, False)),
     intProperty = (\<lambda>props tag s d. case props tag of Some (VPlain (PInt i)) \<Rightarrow> (i, True) | _ \<Rightarrow> (d, False)),
     enumProperty = (\<lambda>props tag s d. case props tag of Some (VPlain (PInt i)) \<Rightarrow> (i, True) | _ \<Rightarrow> (d, False)),
     stringProperty = (\<lambda>props tag s. case props tag of Some (VPlain (PString t)) \<Rightarrow> (t, True) | _ \<Rightarrow> ('''', False)),
     boolProperty = (\<lambda>props tag s. case props tag of Some (VPlain (PBool b)) \<Rightarrow> (b, True) | _ \<Rightarrow> (False, False)),
     resolveConstants = (\<lambda>s text. (text, True)),
     keyframesStyle = (\<lambda>name props s. ''@keyframes '' @ name),
     nextViewID = (\<lambda>s. (''id1'', s)),
     ViewByID = (\<lambda>view subviewID.
        case view of Some v \<Rightarrow> if subviewID = viewID v then Some v else None | None \<Rightarrow> None),
     IsDisabled = (\<lambda>view. False),
     viewStyle_set = plainStyleSet,
     viewStyle_remove = dropProperty,
     viewStyle_get = (\<lambda>tag view. properties view tag),
     setFocusListener = storeListener,
     setKeyListener = storeListener,
     setMouseListener = storeListener,
     setPointerListener = storeListener,
     setTouchListener = storeListener,
     setFrameListener = storeListener,
     removeFocusListener = dropProperty,
     removeKeyListener = dropProperty,
     removeMouseListener = dropProperty,
     removePointerListener = dropProperty,
     removeTouchListener = dropProperty,
     updateTransformProperty = (\<lambda>tag view. (False, view)),
     GetVisibility = (\<lambda>view. case properties view Visibility of Some (VPlain (PInt i)) \<Rightarrow> i | _ \<Rightarrow> 0),
     backgroundCSS = (\<lambda>view. ''''),
     getBorder = (\<lambda>view tag.
        case properties view tag of
          Some (VPlain (PString t)) \<Rightarrow> Some \<lparr>cssWidthValue = t, cssColorValue = ''black'', cssStyleValue = ''solid''\<rparr>
        | _ \<Rightarrow> None),
     outlineCSS = (\<lambda>view. ''''),
     shadowCSS = (\<lambda>view tag. ''''),
     radiusCSS = (\<lambda>view. ''''),
     marginCSS = (\<lambda>view. ''''),
     paddingCSS = (\<lambda>view. ''''),
     clipShapeCSS = (\<lambda>view tag. None),
     filterCSS = (\<lambda>value s. None),
     cssTextDecoration = (\<lambda>view. ''''),
     transitionCSS = (\<lambda>view. ''''),
     viewStyle_animationCSS = (\<lambda>view. ('''', view)),
     sizeProperties = Map.empty,
     sizePropertyCSS = (\<lambda>view tag. ''''),
     colorPropertyCSS = (\<lambda>view tag. ('''', False)),
     enumProperties = Map.empty,
     setItems = (\<lambda>value list. (False, list)),
     setDisabledItems = (\<lambda>value list. (False, list)),
     setDropDownListener = (\<lambda>value list. (False, list)),
     GetCurrent = (\<lambda>list. case properties (viewData list) Current of Some (VPlain (PInt i)) \<Rightarrow> i | _ \<Rightarrow> 0)
   \<rparr>"

text \<open>A session and a view at their start (\<^verbatim>\<open>viewData.Init\<close>), not yet on the rendering surface.\<close>

definition initSession :: sessionData where
  "initSession = \<lparr>animationCounter = 0, animationCSS = '''', trace = []\<rparr>"

definition initView :: viewData where
  "initView = \<lparr>properties = Map.empty, transitions = Map.empty, session = initSession, viewID = '''',
     htmlID_field = '''', parentID = '''', systemClass = '''', changeListener = Map.empty,
     singleTransition = Map.empty, created = False, hasFocus = False\<rparr>"

section \<open>The timing functions that the specification accepts\<close>

text \<open>
  The forms of the specification: \<^verbatim>\<open>steps(N)\<close> where N, without the blanks around it, is
  read by \<^verbatim>\<open>strconv.Atoi\<close>, and \<^verbatim>\<open>cubic-bezier(a,b,c,d)\<close> where each of the four
  parameters, without the blanks around it, is read by \<^verbatim>\<open>strconv.ParseFloat\<close>.
\<close>

abbreviation timingKeywords :: "string list" where
  "timingKeywords \<equiv> [EaseTiming, EaseInTiming, EaseOutTiming, EaseInOutTiming, LinearTiming]"

definition stepsForm :: "string \<Rightarrow> bool" where
  "stepsForm s = (\<exists>N. s = ''steps('' @ N @ '')'' \<and> strconv_Atoi (strings_Trim N blanks) \<noteq> None)"

definition cubicBezierForm :: "(string \<Rightarrow> bool) \<Rightarrow> string \<Rightarrow> bool" where
  "cubicBezierForm pf s =
     (\<exists>a b c d. s = ''cubic-bezier('' @ a @ '','' @ b @ '','' @ c @ '','' @ d @ '')'' \<and>
        CHR '','' \<notin> set (a @ b @ c @ d) \<and>
        pf (strings_Trim a blanks) \<and> pf (strings_Trim b blanks) \<and>
        pf (strings_Trim c blanks) \<and> pf (strings_Trim d blanks))"

text \<open>
  A view in the state Overriding for the tag "opacity": the override is the animation at
  address 1, and \<open>saved\<close> is what the animated set saved.
\<close>

definition overridingView :: "Animation \<Rightarrow> viewData" where
  "overridingView saved = initView\<lparr>transitions := [Opacity \<mapsto> Some 1], singleTransition := [Opacity \<mapsto> saved]\<rparr>"

section \<open>Animated properties: examples and what the specification stores\<close>

text \<open>
  The keyframes of the example of the specification (red at 0, blue at 50, green at 100),
  a store with one such map and a store with two of them, and three properties without
  \<^verbatim>\<open>From\<close> and \<^verbatim>\<open>To\<close>: for the colour of the background with the map at address 0, for
  the colour of the text with the same map, and for the colour of the text with the map
  at address 1.
\<close>

definition colours :: keyframes where
  "colours = [0 \<mapsto> Some (PString ''red''), 50 \<mapsto> Some (PString ''blue''), 100 \<mapsto> Some (PString ''green'')]"

definition oneMap :: mapStore where
  "oneMap = \<lparr>mapAt = (\<lambda>a. Map.empty)(0 := colours), mapCount = 1\<rparr>"

definition twoMaps :: mapStore where
  "twoMaps = \<lparr>mapAt = (\<lambda>a. Map.empty)(0 := colours, 1 := colours), mapCount = 2\<rparr>"

definition backgroundFrames :: AnimatedProperty where
  "backgroundFrames = \<lparr>Tag = BackgroundColor, From = None, To = None, KeyFrames = Some 0\<rparr>"

definition textFramesShared :: AnimatedProperty where
  "textFramesShared = \<lparr>Tag = TextColor, From = None, To = None, KeyFrames = Some 0\<rparr>"

definition textFramesOwn :: AnimatedProperty where
  "textFramesOwn = \<lparr>Tag = TextColor, From = None, To = None, KeyFrames = Some 1\<rparr>"

text \<open>
  What the specification says of a property given to \<^verbatim>\<open>Set\<close>, read on the maps as they are
  given: without \<^verbatim>\<open>From\<close>, the keyframe at 0 of its map is its \<^verbatim>\<open>From\<close>, and likewise the
  keyframe at 100 and \<^verbatim>\<open>To\<close>; of a list, the properties that then have both ends are
  stored, in order. \<open>mapsOf\<close> is the list of the maps that the properties of a list refer
  to.
\<close>

definition specNormalized :: "mapStore \<Rightarrow> AnimatedProperty \<Rightarrow> AnimatedProperty" where
  "specNormalized mem p =
     (case KeyFrames p of
        None \<Rightarrow> p
      | Some a \<Rightarrow>
          p\<lparr>From := (if From p = None then (case mapAt mem a 0 of Some v \<Rightarrow> v | None \<Rightarrow> None) else From p),
            To := (if To p = None then (case mapAt mem a 100 of Some w \<Rightarrow> w | None \<Rightarrow> None) else To p)\<rparr>)"

definition hasEnds :: "AnimatedProperty \<Rightarrow> bool" where
  "hasEnds q = (From q \<noteq> None \<and> To q \<noteq> None)"

definition specStored :: "mapStore \<Rightarrow> AnimatedProperty list \<Rightarrow> AnimatedProperty list" where
  "specStored mem ps = filter hasEnds (map (specNormalized mem) ps)"

definition mapsOf :: "AnimatedProperty list \<Rightarrow> nat list" where
  "mapsOf ps = List.map_filter KeyFrames ps"

text \<open>
  An animation that holds one property with both ends (its keyframes are the map at
  address 0) and has no name yet.
\<close>

definition fading :: animationData where
  "fading = \<lparr>properties = [PropertyTag \<mapsto> VAnimatedProperties
       [\<lparr>Tag = Opacity, From = Some (PString ''red''), To = Some (PString ''green''),
          KeyFrames = Some 0\<rparr>]],
     keyFramesName = ''''\<rparr>"

section \<open>Collections of listeners that the specification rejects\<close>

text \<open>
  The dynamic types that the heterogeneous case of \<^verbatim>\<open>valueToAnimationListeners\<close> accepts,
  the callbacks that are nil, and the collections with an element that is no callback:
  the nil function in a slice of functions; in a \<^verbatim>\<open>[]interface{}\<close> the nil interface, a
  value of another type, and a nil function of one of the four types (which, stored in
  an interface, does not compare equal to nil in Go).
\<close>

fun listenerShape :: "val \<Rightarrow> bool" where
  "listenerShape (VFuncViewString _) = True"
| "listenerShape (VFuncString _) = True"
| "listenerShape (VFuncView _) = True"
| "listenerShape (VFunc0 _) = True"
| "listenerShape _ = False"

fun nilCallback :: "val \<Rightarrow> bool" where
  "nilCallback (VFuncViewString l) = (l = NilFunc)"
| "nilCallback (VFuncString f) = (f = None)"
| "nilCallback (VFuncView f) = (f = None)"
| "nilCallback (VFunc0 f) = (f = None)"
| "nilCallback _ = False"

definition invalidElement :: "val option \<Rightarrow> bool" where
  "invalidElement v = (case v of None \<Rightarrow> True | Some x \<Rightarrow> \<not> listenerShape x \<or> nilCallback x)"

fun invalidCollection :: "val \<Rightarrow> bool" where
  "invalidCollection (VFuncViewStrings ls) = list_ex (\<lambda>l. l = NilFunc) ls"
| "invalidCollection (VFuncStrings fs) = list_ex (\<lambda>f. f = None) fs"
| "invalidCollection (VFuncViews fs) = list_ex (\<lambda>f. f = None) fs"
| "invalidCollection (VFunc0s fs) = list_ex (\<lambda>f. f = None) fs"
| "invalidCollection (VAnys vs) = list_ex invalidElement vs"
| "invalidCollection _ = False"

section \<open>Views for the examples\<close>

text \<open>
  A view on the rendering surface with a border configured, the same view after the
  base style stored a width of its left border, and a view with one listener of the end
  of a transition.
\<close>

definition borderedView :: viewData where
  "borderedView = initView\<lparr>properties := [Border \<mapsto> VPlain (PString ''1px'')],
     htmlID_field := ''v1'', created := True\<rparr>"

definition widthSet :: viewData where
  "widthSet = borderedView\<lparr>properties := (properties borderedView)(BorderLeftWidth \<mapsto> VPlain (PString ''2px''))\<rparr>"

definition listeningView :: viewData where
  "listeningView = initView\<lparr>properties := [TransitionEndEvent \<mapsto> VFuncViewStrings [Func 3]]\<rparr>"

section \<open>Properties\<close>

subsection \<open>Strings\<close>

lemma IndexRune_append:
  "c \<notin> set xs \<Longrightarrow> strings_IndexRune (xs @ c # ys) c = int (length xs)"
  by (induction xs) (auto simp: Let_def)

lemma IndexRune_ge0:
  "0 \<le> strings_IndexRune s c \<Longrightarrow>
     c \<notin> set (take (nat (strings_IndexRune s c)) s) \<and>
     s = take (nat (strings_IndexRune s c)) s @ c # drop (nat (strings_IndexRune s c) + 1) s"
proof (induction s)
  case Nil
  then show ?case by simp
next
  case (Cons a s)
  show ?case
  proof (cases "a = c")
    case True
    then show ?thesis by simp
  next
    case False
    with Cons.prems have nn: "0 \<le> strings_IndexRune s c"
      by (simp add: Let_def split: if_splits)
    then have eq: "strings_IndexRune (a # s) c = strings_IndexRune s c + 1"
      using False by (simp add: Let_def)
    have n: "nat (strings_IndexRune s c + 1) = Suc (nat (strings_IndexRune s c))"
      using nn by simp
    from Cons.IH [OF nn] show ?thesis
      unfolding eq n using False by simp
  qed
qed

lemma Split_no_sep: "sep \<notin> set a \<Longrightarrow> strings_Split a sep = [a]"
  by (induction a) (auto simp: Let_def)

lemma Split_append:
  "sep \<notin> set a \<Longrightarrow> strings_Split (a @ sep # r) sep = a # strings_Split r sep"
  by (induction a) (auto simp: Let_def)

lemma Split_not_Nil: "strings_Split s sep \<noteq> []"
  by (induction s) (auto simp: Let_def)

lemma Split_Cons:
  "strings_Split s sep = p # ps \<Longrightarrow>
     sep \<notin> set p \<and> ((ps = [] \<and> s = p) \<or> (\<exists>r. s = p @ sep # r \<and> ps = strings_Split r sep))"
proof (induction s arbitrary: p ps)
  case Nil
  then show ?case by simp
next
  case (Cons a s)
  show ?case
  proof (cases "a = sep")
    case True
    with Cons.prems show ?thesis by auto
  next
    case False
    obtain q qs where q: "strings_Split s sep = q # qs"
      using Split_not_Nil [of s sep] by (cases "strings_Split s sep") auto
    with Cons.prems False have p: "p = a # q" "ps = qs"
      by (auto simp: Let_def)
    from Cons.IH [OF q] show ?thesis
      using False p by auto
  qed
qed

lemma Split4:
  "(length (strings_Split args sep) = 4 \<and> list_all P (strings_Split args sep)) \<longleftrightarrow>
   (\<exists>a b c d. args = a @ sep # b @ sep # c @ sep # d \<and> sep \<notin> set (a @ b @ c @ d) \<and>
      P a \<and> P b \<and> P c \<and> P d)"
proof
  assume L: "length (strings_Split args sep) = 4 \<and> list_all P (strings_Split args sep)"
  then obtain a b c d where s: "strings_Split args sep = [a, b, c, d]"
    by (auto simp: length_Suc_conv numeral_eq_Suc)
  from Split_Cons [OF s] obtain r1 where a: "sep \<notin> set a" "args = a @ sep # r1"
    and s1: "strings_Split r1 sep = [b, c, d]" by auto
  from Split_Cons [OF s1] obtain r2 where b: "sep \<notin> set b" "r1 = b @ sep # r2"
    and s2: "strings_Split r2 sep = [c, d]" by auto
  from Split_Cons [OF s2] obtain r3 where c: "sep \<notin> set c" "r2 = c @ sep # r3"
    and s3: "strings_Split r3 sep = [d]" by auto
  from Split_Cons [OF s3] have d: "sep \<notin> set d" "r3 = d"
    using Split_not_Nil by (auto dest: sym)
  from L s have "P a \<and> P b \<and> P c \<and> P d" by simp
  with a b c d show "\<exists>a b c d. args = a @ sep # b @ sep # c @ sep # d \<and> sep \<notin> set (a @ b @ c @ d) \<and>
      P a \<and> P b \<and> P c \<and> P d" by auto
next
  assume "\<exists>a b c d. args = a @ sep # b @ sep # c @ sep # d \<and> sep \<notin> set (a @ b @ c @ d) \<and>
      P a \<and> P b \<and> P c \<and> P d"
  then obtain a b c d where args: "args = a @ sep # b @ sep # c @ sep # d"
    and ns: "sep \<notin> set a" "sep \<notin> set b" "sep \<notin> set c" "sep \<notin> set d"
    and P: "P a" "P b" "P c" "P d" by auto
  have "strings_Split args sep = [a, b, c, d]"
    unfolding args by (simp add: Split_append Split_no_sep ns)
  with P show "length (strings_Split args sep) = 4 \<and> list_all P (strings_Split args sep)"
    by simp
qed

subsection \<open>Timing functions\<close>

lemma validate_call:
  assumes "CHR ''('' \<notin> set name" "name \<noteq> []" "name @ ''('' @ args @ '')'' \<notin> set ('''' # timingKeywords)"
  shows "validateTimingFunction pf (name @ ''('' @ args @ '')'') =
           (if name = ''steps'' then strconv_Atoi (strings_Trim args blanks) \<noteq> None
            else if name = ''cubic-bezier'' then
              length (strings_Split args (CHR '','')) = 4 \<and>
              list_all (\<lambda>param. pf (strings_Trim param blanks)) (strings_Split args (CHR '',''))
            else False)"
proof -
  let ?s = "name @ ''('' @ args @ '')''"
  have len: "length ?s = length name + length args + 2" by simp
  have lastc: "?s ! (length ?s - 1) = CHR '')''"
    by (simp add: nth_append)
  have idx: "strings_IndexRune ?s (CHR ''('') = int (length name)"
    using IndexRune_append [OF assms(1), of "args @ '')''"] by simp
  have pos: "int (length name) > 0" using assms(2) by simp
  have nm: "take (length name) ?s = name" by simp
  have ar: "take (length ?s - 1 - (length name + 1)) (drop (length name + 1) ?s) = args" by simp
  show ?thesis
    unfolding validateTimingFunction_def Let_def idx
    using assms(3) lastc pos nm ar by (simp del: append.simps add: len) simp
qed

lemma validate_decompose:
  assumes "validateTimingFunction pf s" "s \<notin> set ('''' # timingKeywords)"
  shows "\<exists>name args. s = name @ ''('' @ args @ '')'' \<and> CHR ''('' \<notin> set name \<and> name \<noteq> []"
proof -
  let ?i = "strings_IndexRune s (CHR ''('')"
  from assms have sz: "length s > 0" and lc: "s ! (length s - 1) = CHR '')''" and ip: "?i > 0"
    unfolding validateTimingFunction_def Let_def by (auto split: if_splits)
  from IndexRune_ge0 [of s "CHR ''(''"] ip
  have notin: "CHR ''('' \<notin> set (take (nat ?i) s)"
    and dec: "s = take (nat ?i) s @ CHR ''('' # drop (nat ?i + 1) s" by auto
  let ?name = "take (nat ?i) s" and ?rest = "drop (nat ?i + 1) s"
  have ne: "s \<noteq> []" using sz by simp
  have "last s = CHR '')''" using lc ne by (simp add: last_conv_nth)
  with dec have "last (CHR ''('' # ?rest) = CHR '')''"
    by (metis last_appendR list.distinct(1))
  then have rne: "?rest \<noteq> []" and lr: "last ?rest = CHR '')''"
    by (auto split: if_splits)
  then have "?rest = butlast ?rest @ '')''"
    by (metis append_butlast_last_id)
  with dec have "s = ?name @ ''('' @ butlast ?rest @ '')''" by simp
  moreover have "?name \<noteq> []" using ip ne by auto
  ultimately show ?thesis using notin by blast
qed

lemma validate_iff:
  "validateTimingFunction pf s \<longleftrightarrow>
     s = '''' \<or> s \<in> set timingKeywords \<or> stepsForm s \<or> cubicBezierForm pf s"
proof (cases "s \<in> set ('''' # timingKeywords)")
  case True
  then show ?thesis by (auto simp: validateTimingFunction_def)
next
  case False
  show ?thesis
  proof
    assume v: "validateTimingFunction pf s"
    from validate_decompose [OF v False] obtain name args where
      s: "s = name @ ''('' @ args @ '')''" and nm: "CHR ''('' \<notin> set name" "name \<noteq> []" by blast
    from v validate_call [OF nm(1) nm(2), of args pf] False s
    have c: "(if name = ''steps'' then strconv_Atoi (strings_Trim args blanks) \<noteq> None
            else if name = ''cubic-bezier'' then
              length (strings_Split args (CHR '','')) = 4 \<and>
              list_all (\<lambda>param. pf (strings_Trim param blanks)) (strings_Split args (CHR '',''))
            else False)" by simp
    show "s = '''' \<or> s \<in> set timingKeywords \<or> stepsForm s \<or> cubicBezierForm pf s"
    proof (cases "name = ''steps''")
      case True
      with c s have "stepsForm s" unfolding stepsForm_def by auto
      then show ?thesis by simp
    next
      case ns: False
      with c have cb: "name = ''cubic-bezier''" and
        sp: "length (strings_Split args (CHR '','')) = 4 \<and>
              list_all (\<lambda>param. pf (strings_Trim param blanks)) (strings_Split args (CHR '',''))"
        by (auto split: if_splits)
      from sp [unfolded Split4] obtain a b c d where
        "args = a @ CHR '','' # b @ CHR '','' # c @ CHR '','' # d"
        "CHR '','' \<notin> set (a @ b @ c @ d)"
        "pf (strings_Trim a blanks)" "pf (strings_Trim b blanks)"
        "pf (strings_Trim c blanks)" "pf (strings_Trim d blanks)" by blast
      with s cb have "cubicBezierForm pf s" unfolding cubicBezierForm_def
        by (intro exI [of _ a] exI [of _ b] exI [of _ c] exI [of _ d]) simp
      then show ?thesis by simp
    qed
  next
    assume "s = '''' \<or> s \<in> set timingKeywords \<or> stepsForm s \<or> cubicBezierForm pf s"
    with False consider "stepsForm s" | "cubicBezierForm pf s" by auto
    then show "validateTimingFunction pf s"
    proof cases
      case 1
      then obtain N where s: "s = ''steps'' @ ''('' @ N @ '')''"
        and N: "strconv_Atoi (strings_Trim N blanks) \<noteq> None"
        unfolding stepsForm_def by auto
      have "validateTimingFunction pf (''steps'' @ ''('' @ N @ '')'')"
        by (subst validate_call) (use N in \<open>simp_all\<close>)
      then show ?thesis using s by simp
    next
      case 2
      then obtain a b c d where s: "s = ''cubic-bezier'' @ ''('' @ (a @ CHR '','' # b @ CHR '','' # c @ CHR '','' # d) @ '')''"
        and ns: "CHR '','' \<notin> set (a @ b @ c @ d)"
        and P: "pf (strings_Trim a blanks)" "pf (strings_Trim b blanks)"
               "pf (strings_Trim c blanks)" "pf (strings_Trim d blanks)"
        unfolding cubicBezierForm_def by auto
      let ?args = "a @ CHR '','' # b @ CHR '','' # c @ CHR '','' # d"
      have sp: "length (strings_Split ?args (CHR '','')) = 4 \<and>
              list_all (\<lambda>param. pf (strings_Trim param blanks)) (strings_Split ?args (CHR '',''))"
        unfolding Split4 using ns P by blast
      have "validateTimingFunction pf (''cubic-bezier'' @ ''('' @ ?args @ '')'')"
        by (subst validate_call) (use sp in \<open>simp_all\<close>)
      then show ?thesis using s by simp
    qed
  qed
qed

lemma validate_steps4: "validateTimingFunction pf ''steps(4)''"
proof -
  have "strconv_Atoi (strings_Trim ''4'' blanks) \<noteq> None" by code_simp
  then have "validateTimingFunction pf (''steps'' @ ''('' @ ''4'' @ '')'')"
    by (subst validate_call) simp_all
  then show ?thesis by simp
qed

lemma validate_stepsa: "\<not> validateTimingFunction pf ''steps(a)''"
proof -
  have "strconv_Atoi (strings_Trim ''a'' blanks) = None" by code_simp
  then have "\<not> validateTimingFunction pf (''steps'' @ ''('' @ ''a'' @ '')'')"
    by (subst validate_call) simp_all
  then show ?thesis by simp
qed

lemma validate_bezier3: "\<not> validateTimingFunction pf ''cubic-bezier(1,2,3)''"
proof -
  have "length (strings_Split ''1,2,3'' (CHR '','')) = 3" by code_simp
  then have "\<not> validateTimingFunction pf (''cubic-bezier'' @ ''('' @ ''1,2,3'' @ '')'')"
    by (subst validate_call) simp_all
  then show ?thesis by simp
qed

lemma validate_bezier4:
  assumes "pf ''0.1''" "pf ''0.7''" "pf ''1''"
  shows "validateTimingFunction pf ''cubic-bezier(0.1,0.7,1,0.1)''"
proof -
  have sp: "strings_Split ''0.1,0.7,1,0.1'' (CHR '','') = [''0.1'', ''0.7'', ''1'', ''0.1'']" by code_simp
  have tr: "strings_Trim ''0.1'' blanks = ''0.1''" "strings_Trim ''0.7'' blanks = ''0.7''"
    "strings_Trim ''1'' blanks = ''1''" by code_simp+
  have "validateTimingFunction pf (''cubic-bezier'' @ ''('' @ ''0.1,0.7,1,0.1'' @ '')'')"
    by (subst validate_call) (simp_all add: sp tr assms)
  then show ?thesis by simp
qed

lemma validate_bounce: "\<not> validateTimingFunction pf ''bounce''"
  unfolding validate_iff stepsForm_def cubicBezierForm_def by simp

lemma timingFunctionCSS_fallback:
  assumes "stringProperty ext (properties animation) TimingFunction s0 = (tf, True)"
    "resolveConstants ext s0 tf = (tf', True)"
    "\<not> validateTimingFunction (parseFloat ext) tf'"
  shows "animationData_timingFunctionCSS ext animation s0 = ''ease''"
  using assms by (simp add: animationData_timingFunctionCSS_def)

text \<open>
  C7, as amended. The validation of a timing function accepts exactly the empty string,
  the five keywords, the form \<^verbatim>\<open>steps(N)\<close> where N without the blanks around it is read
  as an integer, and the form \<^verbatim>\<open>cubic-bezier(a,b,c,d)\<close> where each of the four parameters
  without the blanks around it is read as a float. \<^verbatim>\<open>steps(4)\<close> is accepted and so is
  \<^verbatim>\<open>cubic-bezier(0.1,0.7,1,0.1)\<close> when its numbers are read as floats; \<^verbatim>\<open>steps(a)\<close>,
  \<^verbatim>\<open>cubic-bezier(1,2,3)\<close> and \<^verbatim>\<open>bounce\<close> are rejected; and for a timing function that
  resolves to a rejected text the serialization gives \<^verbatim>\<open>ease\<close>.
\<close>

theorem timing_function_validation:
  "(validateTimingFunction pf s \<longleftrightarrow>
      s = '''' \<or> s \<in> set timingKeywords \<or> stepsForm s \<or> cubicBezierForm pf s) \<and>
   validateTimingFunction pf ''steps(4)'' \<and>
   (pf ''0.1'' \<and> pf ''0.7'' \<and> pf ''1'' \<longrightarrow> validateTimingFunction pf ''cubic-bezier(0.1,0.7,1,0.1)'') \<and>
   \<not> validateTimingFunction pf ''steps(a)'' \<and>
   \<not> validateTimingFunction pf ''cubic-bezier(1,2,3)'' \<and>
   \<not> validateTimingFunction pf ''bounce'' \<and>
   (stringProperty ext (properties animation) TimingFunction s0 = (tf, True) \<and>
    resolveConstants ext s0 tf = (tf', True) \<and>
    \<not> validateTimingFunction (parseFloat ext) tf' \<longrightarrow>
      animationData_timingFunctionCSS ext animation s0 = ''ease'')"
  using validate_iff [of pf s] validate_steps4 [of pf] validate_bezier4 [of pf]
    validate_stepsa [of pf] validate_bezier3 [of pf] validate_bounce [of pf]
    timingFunctionCSS_fallback [of ext animation s0 tf tf']
  by blast

text \<open>
  The theorem at a parser of plain decimal numerals and an animation whose timing
  function is \<^verbatim>\<open>bounce\<close>.
\<close>

theorem timing_function_validation_witness:
  "decimalNumeral ''0.1'' \<and> decimalNumeral ''0.7'' \<and> decimalNumeral ''1'' \<and>
   validateTimingFunction decimalNumeral ''cubic-bezier(0.1,0.7,1,0.1)'' \<and>
   stringProperty ext0 (properties \<lparr>properties = [TimingFunction \<mapsto> VPlain (PString ''bounce'')], keyFramesName = ''''\<rparr>)
     TimingFunction initSession = (''bounce'', True) \<and>
   resolveConstants ext0 initSession ''bounce'' = (''bounce'', True) \<and>
   \<not> validateTimingFunction (parseFloat ext0) ''bounce'' \<and>
   animationData_timingFunctionCSS ext0
     \<lparr>properties = [TimingFunction \<mapsto> VPlain (PString ''bounce'')], keyFramesName = ''''\<rparr> initSession = ''ease''"
proof -
  have d: "decimalNumeral ''0.1''" "decimalNumeral ''0.7''" "decimalNumeral ''1''"
    by code_simp+
  have sp: "stringProperty ext0 (properties \<lparr>properties = [TimingFunction \<mapsto> VPlain (PString ''bounce'')], keyFramesName = ''''\<rparr>)
     TimingFunction initSession = (''bounce'', True)"
    by (simp add: ext0_def)
  have rc: "resolveConstants ext0 initSession ''bounce'' = (''bounce'', True)"
    by (simp add: ext0_def)
  from timing_function_validation [of decimalNumeral "''steps(4)''" ext0
      "\<lparr>properties = [TimingFunction \<mapsto> VPlain (PString ''bounce'')], keyFramesName = ''''\<rparr>"
      initSession "''bounce''" "''bounce''"] d sp rc
  show ?thesis by (simp add: ext0_def)
qed

text \<open>
  C7 as the specification states it fails at the empty string: it is none of the five
  keywords and of neither form, the validation accepts it, and the serialization gives
  the empty text and not \<^verbatim>\<open>ease\<close>.
\<close>

theorem timing_function_empty_counterexample:
  "validateTimingFunction decimalNumeral '''' \<and>
   '''' \<notin> set timingKeywords \<and> \<not> stepsForm '''' \<and> \<not> cubicBezierForm decimalNumeral '''' \<and>
   animationData_timingFunctionCSS ext0
     \<lparr>properties = [TimingFunction \<mapsto> VPlain (PString '''')], keyFramesName = ''''\<rparr> initSession \<noteq> ''ease''"
  by (simp add: validateTimingFunction_def stepsForm_def cubicBezierForm_def
      animationData_timingFunctionCSS_def ext0_def)

subsection \<open>What the helpers of a view keep\<close>

lemma htmlID_keeps [simp]:
  "singleTransition (snd (viewData_htmlID ext v)) = singleTransition v"
  "transitions (snd (viewData_htmlID ext v)) = transitions v"
  "properties (snd (viewData_htmlID ext v)) = properties v"
  "changeListener (snd (viewData_htmlID ext v)) = changeListener v"
  "created (snd (viewData_htmlID ext v)) = created v"
  "viewID (snd (viewData_htmlID ext v)) = viewID v"
  by (simp_all add: viewData_htmlID_def Let_def split: prod.splits)

lemma onSession_keeps [simp]:
  "singleTransition (onSession f v) = singleTransition v"
  "transitions (onSession f v) = transitions v"
  "properties (onSession f v) = properties v"
  "changeListener (onSession f v) = changeListener v"
  "created (onSession f v) = created v"
  "viewID (onSession f v) = viewID v"
  "htmlID_field (onSession f v) = htmlID_field v"
  "session (onSession f v) = f (session v)"
  by (simp_all add: onSession_def)

lemma updateTransitionCSS_keeps [simp]:
  "singleTransition (updateTransitionCSS ext v) = singleTransition v"
  "transitions (updateTransitionCSS ext v) = transitions v"
  "properties (updateTransitionCSS ext v) = properties v"
  "changeListener (updateTransitionCSS ext v) = changeListener v"
  "created (updateTransitionCSS ext v) = created v"
  "viewID (updateTransitionCSS ext v) = viewID v"
  by (simp_all add: updateTransitionCSS_def Let_def split: prod.splits)
    (metis htmlID_keeps snd_conv)+

lemma updateTransitionCSS_trace:
  "viewData_htmlID ext v = (hid, v2) \<Longrightarrow>
   trace (session (updateTransitionCSS ext v)) =
     trace (session v2) @ [UpdateCSSProperty hid ''transition'' (transitionCSS ext v2)]"
  by (simp add: updateTransitionCSS_def updateCSSProperty_def)

lemma invoke_all:
  "foldl (\<lambda>view listener. onSession (logged (Invoke listener p)) view) v ls =
     onSession (\<lambda>s. s\<lparr>trace := trace s @ map (\<lambda>l. Invoke l p) ls\<rparr>) v"
proof (induction ls arbitrary: v)
  case Nil
  show ?case by (simp add: onSession_def)
next
  case (Cons l ls)
  show ?case by (simp add: Cons.IH) (simp add: onSession_def logged_def)
qed

subsection \<open>The transition state machine\<close>

text \<open>
  C3. In the state Overriding for a tag (\<open>singleTransition\<close> has an entry for it, holding
  \<open>saved\<close>), a transition-end-event or transition-cancel-event that carries the tag removes
  the entry of \<open>singleTransition\<close>, puts the saved animation back into \<open>transitions\<close> when
  it is a real animation and deletes the entry of \<open>transitions\<close> when it is nil, and then
  sends the recomputed CSS transition declaration, before the listeners are called. A
  transition-run-event or transition-start-event only adds the calls of listeners to the
  trace and leaves the view as it is.
\<close>

theorem transition_event_handling:
  "(kind \<in> {TransitionEndEvent, TransitionCancelEvent} \<and> data ''property'' = Some tag \<and>
    singleTransition view tag = Some saved \<longrightarrow>
      (let view' = handleTransitionEvents ext kind data view;
           v1 = view\<lparr>singleTransition := (singleTransition view)(tag := None),
                     transitions := (case saved of
                                       Some a \<Rightarrow> (transitions view)(tag \<mapsto> Some a)
                                     | None \<Rightarrow> (transitions view)(tag := None))\<rparr>;
           (hid, v2) = viewData_htmlID ext v1
       in singleTransition view' = (singleTransition view)(tag := None) \<and>
          transitions view' = (case saved of
                                 Some a \<Rightarrow> (transitions view)(tag \<mapsto> Some a)
                               | None \<Rightarrow> (transitions view)(tag := None)) \<and>
          (\<exists>ls. trace (session view') =
                  trace (session v2) @ [UpdateCSSProperty hid ''transition'' (transitionCSS ext v2)]
                  @ map (\<lambda>l. Invoke l tag) ls))) \<and>
   (kind \<in> {TransitionRunEvent, TransitionStartEvent} \<longrightarrow>
      (\<exists>ls p. handleTransitionEvents ext kind data view =
                onSession (\<lambda>s. s\<lparr>trace := trace s @ map (\<lambda>l. Invoke l p) ls\<rparr>) view))"
proof (intro conjI impI)
  assume h: "kind \<in> {TransitionEndEvent, TransitionCancelEvent} \<and> data ''property'' = Some tag \<and>
    singleTransition view tag = Some saved"
  define v1 where "v1 = view\<lparr>singleTransition := (singleTransition view)(tag := None),
                     transitions := (case saved of
                                       Some a \<Rightarrow> (transitions view)(tag \<mapsto> Some a)
                                     | None \<Rightarrow> (transitions view)(tag := None))\<rparr>"
  obtain hid v2 where hv: "viewData_htmlID ext v1 = (hid, v2)" by (cases "viewData_htmlID ext v1")
  have eq: "handleTransitionEvents ext kind data view =
      onSession (\<lambda>s. s\<lparr>trace := trace s @ map (\<lambda>l. Invoke l tag)
          (getAnimationListeners ext (Some (updateTransitionCSS ext v1)) [] kind)\<rparr>)
        (updateTransitionCSS ext v1)"
    using h by (cases saved) (auto simp: handleTransitionEvents_def invoke_all v1_def Let_def)
  show "(let view' = handleTransitionEvents ext kind data view;
           v1 = view\<lparr>singleTransition := (singleTransition view)(tag := None),
                     transitions := (case saved of
                                       Some a \<Rightarrow> (transitions view)(tag \<mapsto> Some a)
                                     | None \<Rightarrow> (transitions view)(tag := None))\<rparr>;
           (hid, v2) = viewData_htmlID ext v1
       in singleTransition view' = (singleTransition view)(tag := None) \<and>
          transitions view' = (case saved of
                                 Some a \<Rightarrow> (transitions view)(tag \<mapsto> Some a)
                               | None \<Rightarrow> (transitions view)(tag := None)) \<and>
          (\<exists>ls. trace (session view') =
                  trace (session v2) @ [UpdateCSSProperty hid ''transition'' (transitionCSS ext v2)]
                  @ map (\<lambda>l. Invoke l tag) ls))"
    unfolding Let_def v1_def [symmetric] hv eq
    by (simp add: updateTransitionCSS_trace [OF hv]) (auto simp: v1_def)
next
  assume k: "kind \<in> {TransitionRunEvent, TransitionStartEvent}"
  then have nk: "\<not> (kind = TransitionEndEvent \<or> kind = TransitionCancelEvent)" by auto
  show "\<exists>ls p. handleTransitionEvents ext kind data view =
                onSession (\<lambda>s. s\<lparr>trace := trace s @ map (\<lambda>l. Invoke l p) ls\<rparr>) view"
  proof (cases "data ''property''")
    case None
    then have "handleTransitionEvents ext kind data view =
        onSession (\<lambda>s. s\<lparr>trace := trace s @ map (\<lambda>l. Invoke l '''') []\<rparr>) view"
      by (simp add: handleTransitionEvents_def onSession_def)
    then show ?thesis by blast
  next
    case (Some property)
    then have "handleTransitionEvents ext kind data view =
        onSession (\<lambda>s. s\<lparr>trace := trace s @ map (\<lambda>l. Invoke l property)
          (getAnimationListeners ext (Some view) '''' kind)\<rparr>) view"
      using nk by (simp add: handleTransitionEvents_def invoke_all)
    then show ?thesis by blast
  qed
qed

text \<open>
  The theorem on a view that overrides "opacity": with nil saved, the end event deletes
  the transition; with the animation at address 2 saved, it restores it; and the run event
  changes neither map.
\<close>

theorem transition_event_handling_witness:
  "TransitionEndEvent \<in> {TransitionEndEvent, TransitionCancelEvent} \<and>
   [''property'' \<mapsto> Opacity] ''property'' = Some Opacity \<and>
   singleTransition (overridingView None) Opacity = Some None \<and>
   singleTransition (handleTransitionEvents ext0 TransitionEndEvent [''property'' \<mapsto> Opacity] (overridingView None)) Opacity = None \<and>
   transitions (handleTransitionEvents ext0 TransitionEndEvent [''property'' \<mapsto> Opacity] (overridingView None)) Opacity = None \<and>
   singleTransition (overridingView (Some 2)) Opacity = Some (Some 2) \<and>
   transitions (handleTransitionEvents ext0 TransitionEndEvent [''property'' \<mapsto> Opacity] (overridingView (Some 2))) Opacity = Some (Some 2) \<and>
   TransitionRunEvent \<in> {TransitionRunEvent, TransitionStartEvent} \<and>
   transitions (handleTransitionEvents ext0 TransitionRunEvent [''property'' \<mapsto> Opacity] (overridingView None)) Opacity = Some (Some 1) \<and>
   singleTransition (handleTransitionEvents ext0 TransitionRunEvent [''property'' \<mapsto> Opacity] (overridingView None)) Opacity = Some None"
proof -
  have a: "singleTransition (overridingView saved) Opacity = Some saved"
    "transitions (overridingView saved) Opacity = Some (Some 1)" for saved
    by (simp_all add: overridingView_def)
  from transition_event_handling [of TransitionEndEvent "[''property'' \<mapsto> Opacity]" Opacity "overridingView None" None ext0]
  have e1: "singleTransition (handleTransitionEvents ext0 TransitionEndEvent [''property'' \<mapsto> Opacity] (overridingView None)) Opacity = None"
    "transitions (handleTransitionEvents ext0 TransitionEndEvent [''property'' \<mapsto> Opacity] (overridingView None)) Opacity = None"
    by (simp_all add: a Let_def split: prod.splits)
  from transition_event_handling [of TransitionEndEvent "[''property'' \<mapsto> Opacity]" Opacity "overridingView (Some 2)" "Some 2" ext0]
  have e2: "transitions (handleTransitionEvents ext0 TransitionEndEvent [''property'' \<mapsto> Opacity] (overridingView (Some 2))) Opacity = Some (Some 2)"
    by (simp add: a Let_def split: prod.splits)
  from transition_event_handling [of TransitionRunEvent "[''property'' \<mapsto> Opacity]" Opacity "overridingView None" None ext0]
  obtain ls p where "handleTransitionEvents ext0 TransitionRunEvent [''property'' \<mapsto> Opacity] (overridingView None) =
      onSession (\<lambda>s. s\<lparr>trace := trace s @ map (\<lambda>l. Invoke l p) ls\<rparr>) (overridingView None)"
    by auto
  then have e3: "transitions (handleTransitionEvents ext0 TransitionRunEvent [''property'' \<mapsto> Opacity] (overridingView None)) Opacity = Some (Some 1)"
    "singleTransition (handleTransitionEvents ext0 TransitionRunEvent [''property'' \<mapsto> Opacity] (overridingView None)) Opacity = Some None"
    by (simp_all add: a)
  show ?thesis using a e1 e2 e3 by simp
qed

subsection \<open>Set with nil, SetAnimated without an animation, AddTransition\<close>

text \<open>
  C8. For every tag and each of the three stores (view, animation, drop-down list),
  \<^verbatim>\<open>Set(tag, nil)\<close> returns true and leaves the store in the state that \<^verbatim>\<open>Remove(tag)\<close>
  gives: it takes the removal path.
\<close>

theorem set_nil_is_remove:
  "viewData_Set ext tag None view = (True, viewData_Remove ext tag view) \<and>
   animationData_Set ext tag None animation mem = (True, animationData_Remove tag animation, [], mem) \<and>
   dropDownListData_Set ext tag None list = (True, dropDownListData_Remove ext tag list)"
  by (simp add: viewData_Set_def viewData_set_def viewData_Remove_def animationData_Set_def
      dropDownListData_Set_def dropDownListData_set_def dropDownListData_Remove_def)


text \<open>
  C10. \<^verbatim>\<open>AddTransition\<close> returns false and writes to no view when the tag is empty or the
  resolved view is nil; with a tag that is not empty and a resolved view it is the set of
  the property "transition" of that view to its transitions with the new entry.
\<close>

theorem AddTransition_guards:
  "AddTransition ext view subviewID '''' animation = (False, None) \<and>
   ((if subviewID \<noteq> '''' then ViewByID ext view subviewID else view) = None \<longrightarrow>
      AddTransition ext view subviewID tag animation = (False, None)) \<and>
   (tag \<noteq> '''' \<and> (if subviewID \<noteq> '''' then ViewByID ext view subviewID else view) = Some v \<longrightarrow>
      AddTransition ext view subviewID tag animation =
        (fst (viewData_Set ext Transition
                (Some (VParams ((getTransitions v)(tag \<mapsto> map_option VAnimation animation)))) v),
         Some (snd (viewData_Set ext Transition
                (Some (VParams ((getTransitions v)(tag \<mapsto> map_option VAnimation animation)))) v))))"
  by (auto simp: AddTransition_def Let_def split: prod.splits)

lemma ToLower_transition: "strings_ToLower Transition = Transition"
  by code_simp

lemma Set_transition_ext0:
  "viewData_Set ext0 Transition (Some (VParams P)) initView =
     (True, initView\<lparr>transitions :=
        (\<lambda>k. case P k of Some (Some (VAnimation a)) \<Rightarrow> Some (Some a) | _ \<Rightarrow> None)\<rparr>)"
  by (simp add: viewData_Set_def ToLower_transition viewData_set_def ext0_def plainStyleSet_def
      propertyChangedEvent_def initView_def)

text \<open>The theorem without a view, and on the view at its start with the tag "opacity".\<close>

theorem AddTransition_guards_witness:
  "(if '''' \<noteq> '''' then ViewByID ext0 None '''' else None) = None \<and>
   AddTransition ext0 None '''' Opacity (Some 1) = (False, None) \<and>
   Opacity \<noteq> '''' \<and>
   (if '''' \<noteq> '''' then ViewByID ext0 (Some initView) '''' else Some initView) = Some initView \<and>
   fst (AddTransition ext0 (Some initView) '''' Opacity (Some 1)) = True \<and>
   transitions (the (snd (AddTransition ext0 (Some initView) '''' Opacity (Some 1)))) Opacity = Some (Some 1)"
  using AddTransition_guards [of ext0 None "''''" "Some 1" Opacity initView]
    AddTransition_guards [of ext0 "Some initView" "''''" "Some 1" Opacity initView]
  by (simp add: Set_transition_ext0)

subsection \<open>Animated properties\<close>

lemma normalizeTag_property: "animationData_normalizeTag PropertyTag = PropertyTag"
proof -
  have "strings_ToLower PropertyTag = PropertyTag" by code_simp
  then show ?thesis by (simp add: animationData_normalizeTag_def)
qed

lemma colours_promoted: "colours(0 := None, 100 := None) = [50 \<mapsto> Some (PString ''blue'')]"
  by (rule ext) (simp add: colours_def)

lemma mapsOf_Cons:
  "mapsOf (p # ps) = (case KeyFrames p of None \<Rightarrow> mapsOf ps | Some a \<Rightarrow> a # mapsOf ps)"
  by (simp add: mapsOf_def List.map_filter_simps split: option.splits)

lemma mapsOf_mem: "KeyFrames p = Some a \<Longrightarrow> p \<in> set ps \<Longrightarrow> a \<in> set (mapsOf ps)"
  by (auto simp: mapsOf_def List.map_filter_def intro!: image_eqI [where x = p])

text \<open>
  One property, on any store: the two blocks give it the ends that the specification
  says, and write to no map but its own.
\<close>

lemma promote_entry:
  "\<exists>mem'. promoteTo (fst (promoteFrom p mem)) (snd (promoteFrom p mem)) = (specNormalized mem p, mem') \<and>
     (\<forall>b. KeyFrames p \<noteq> Some b \<longrightarrow> mapAt mem' b = mapAt mem b)"
  by (cases p) (auto simp: promoteFrom_def promoteTo_def specNormalized_def deleteKey_def
      split: option.splits)

lemma specNormalized_cong:
  assumes "\<forall>b \<in> set (mapsOf ps). mapAt mem' b = mapAt mem b"
  shows "map (specNormalized mem') ps = map (specNormalized mem) ps"
proof (rule map_cong [OF refl])
  fix p assume "p \<in> set ps"
  with assms mapsOf_mem [of p _ ps] show "specNormalized mem' p = specNormalized mem p"
    by (auto simp: specNormalized_def split: option.splits)
qed

text \<open>
  A property given alone is stored as the specification says, and so are the properties
  of a list no two of which refer to the same map.
\<close>

lemma Set_one_as_specified:
  "fst (animationData_Set ext PropertyTag (Some (VAnimatedProperty p)) animation mem) = hasEnds (specNormalized mem p) \<and>
   properties (fst (snd (animationData_Set ext PropertyTag (Some (VAnimatedProperty p)) animation mem))) PropertyTag =
     (if hasEnds (specNormalized mem p) then Some (VAnimatedProperties [specNormalized mem p])
      else properties animation PropertyTag)"
proof -
  obtain mem' where e: "promoteTo (fst (promoteFrom p mem)) (snd (promoteFrom p mem)) = (specNormalized mem p, mem')"
    using promote_entry [of p mem] by blast
  then show ?thesis
    by (simp add: animationData_Set_def normalizeTag_property Let_def case_prod_beta hasEnds_def)
qed

lemma keepValid_own_maps:
  "distinct (mapsOf ps) \<Longrightarrow> fst (keepValid ps mem) = specStored mem ps"
proof (induction ps arbitrary: mem)
  case Nil
  show ?case by (simp add: specStored_def)
next
  case (Cons p ps)
  obtain mem' where e: "promoteTo (fst (promoteFrom p mem)) (snd (promoteFrom p mem)) = (specNormalized mem p, mem')"
    and o: "\<forall>b. KeyFrames p \<noteq> Some b \<longrightarrow> mapAt mem' b = mapAt mem b"
    using promote_entry [of p mem] by blast
  from Cons.prems have d: "distinct (mapsOf ps)" and n: "\<forall>b \<in> set (mapsOf ps). KeyFrames p \<noteq> Some b"
    by (auto simp: mapsOf_Cons split: option.splits)
  from n o have "\<forall>b \<in> set (mapsOf ps). mapAt mem' b = mapAt mem b" by blast
  then have c: "map (specNormalized mem') ps = map (specNormalized mem) ps"
    by (rule specNormalized_cong)
  from Cons.IH [OF d, of mem'] c have ih: "fst (keepValid ps mem') = specStored mem ps"
    by (simp add: specStored_def)
  show ?case
    using e ih
    by (simp add: specStored_def hasEnds_def Let_def case_prod_beta split: prod.splits)
qed

lemma Set_own_maps:
  assumes "distinct (mapsOf ps)"
  shows "fst (animationData_Set ext PropertyTag (Some (VAnimatedProperties ps)) animation mem) = (specStored mem ps \<noteq> []) \<and>
         properties (fst (snd (animationData_Set ext PropertyTag (Some (VAnimatedProperties ps)) animation mem))) PropertyTag =
           (if specStored mem ps \<noteq> [] then Some (VAnimatedProperties (specStored mem ps))
            else properties animation PropertyTag)"
  using keepValid_own_maps [OF assms, of mem]
  by (simp add: animationData_Set_def normalizeTag_property Let_def case_prod_beta)

text \<open>
  C5. Two properties without \<^verbatim>\<open>From\<close> and \<^verbatim>\<open>To\<close> that share one map with the keyframes
  red at 0, blue at 50 and green at 100, given to \<^verbatim>\<open>Set\<close> as a list under the tag
  "property". By the specification both are stored, each with from red and to green. The
  code stores the first with from red and to green and leaves the map, which is the map
  of the caller, with blue at 50 only; the second, which was given with a keyframe at 0
  and one at 100, finds them gone, is not promoted, and is dropped with the message that
  its \<^verbatim>\<open>From\<close> is nil. The same second property given alone is promoted and stored (from
  red, to green, keyframes blue at 50), and so are both properties of a list when each
  has a map of its own.
\<close>

theorem shared_keyframes_entry_dropped:
  "specStored oneMap [backgroundFrames, textFramesShared] =
     [backgroundFrames\<lparr>From := Some (PString ''red''), To := Some (PString ''green'')\<rparr>,
      textFramesShared\<lparr>From := Some (PString ''red''), To := Some (PString ''green'')\<rparr>] \<and>
   animationData_Set ext PropertyTag (Some (VAnimatedProperties [backgroundFrames, textFramesShared])) animation oneMap =
     (True,
      animation\<lparr>properties := (properties animation)
         (PropertyTag \<mapsto> VAnimatedProperties
            [backgroundFrames\<lparr>From := Some (PString ''red''), To := Some (PString ''green'')\<rparr>])\<rparr>,
      [ErrorLog ''AnimatedProperty.From is nil''],
      oneMap\<lparr>mapAt := (mapAt oneMap)(0 := [50 \<mapsto> Some (PString ''blue'')])\<rparr>) \<and>
   animationData_Set ext PropertyTag (Some (VAnimatedProperty textFramesShared)) animation oneMap =
     (True,
      animation\<lparr>properties := (properties animation)
         (PropertyTag \<mapsto> VAnimatedProperties
            [textFramesShared\<lparr>From := Some (PString ''red''), To := Some (PString ''green'')\<rparr>])\<rparr>,
      [],
      oneMap\<lparr>mapAt := (mapAt oneMap)(0 := [50 \<mapsto> Some (PString ''blue'')])\<rparr>) \<and>
   animationData_Set ext PropertyTag (Some (VAnimatedProperties [backgroundFrames, textFramesOwn])) animation twoMaps =
     (True,
      animation\<lparr>properties := (properties animation)
         (PropertyTag \<mapsto> VAnimatedProperties
            [backgroundFrames\<lparr>From := Some (PString ''red''), To := Some (PString ''green'')\<rparr>,
             textFramesOwn\<lparr>From := Some (PString ''red''), To := Some (PString ''green'')\<rparr>])\<rparr>,
      [],
      twoMaps\<lparr>mapAt := (mapAt twoMaps)(0 := [50 \<mapsto> Some (PString ''blue'')], 1 := [50 \<mapsto> Some (PString ''blue'')])\<rparr>)"
  (is "?S \<and> ?A \<and> ?B \<and> ?C")
proof -
  have c0: "colours 0 = Some (Some (PString ''red''))" "colours 100 = Some (Some (PString ''green''))"
    by (simp_all add: colours_def)
  have s: ?S
    using c0
    by (simp add: specStored_def specNormalized_def hasEnds_def oneMap_def backgroundFrames_def
        textFramesShared_def)
  have a: ?A
    using colours_promoted c0
    by (simp add: animationData_Set_def normalizeTag_property Let_def promoteFrom_def promoteTo_def
        deleteKey_def oneMap_def backgroundFrames_def textFramesShared_def)
  have b: ?B
    using colours_promoted c0
    by (simp add: animationData_Set_def normalizeTag_property Let_def promoteFrom_def promoteTo_def
        deleteKey_def oneMap_def textFramesShared_def)
  have c: ?C
    using colours_promoted c0
    by (simp add: animationData_Set_def normalizeTag_property Let_def promoteFrom_def promoteTo_def
        deleteKey_def twoMaps_def backgroundFrames_def textFramesOwn_def)
  from s a b c show ?thesis by blast
qed

subsection \<open>The name of the keyframes\<close>

lemma registerAnimation_name: "fst (registerAnimation ext props s) \<noteq> ''''"
  by (simp add: registerAnimation_def Let_def)

lemma animationCSS_named:
  assumes "keyFramesName animation \<noteq> ''''"
  shows "animationData_animationCSS ext animation s =
           (keyFramesName animation @ animationData_shorthand ext animation s, animation, s)"
  using assms by (simp add: animationData_animationCSS_def)

lemma animationCSS_first:
  assumes "getRaw animation PropertyTag = Some (VAnimatedProperties props)"
  shows "\<exists>css a1 s1. animationData_animationCSS ext animation s = (css, a1, s1) \<and>
           keyFramesName a1 \<noteq> '''' \<and> css = keyFramesName a1 @ animationData_shorthand ext a1 s1 \<and>
           (keyFramesName animation \<noteq> '''' \<longrightarrow> a1 = animation \<and> s1 = s) \<and>
           (keyFramesName animation = '''' \<longrightarrow>
              a1 = animation\<lparr>keyFramesName := fst (registerAnimation ext props s)\<rparr> \<and>
              s1 = snd (registerAnimation ext props s))"
proof (cases "keyFramesName animation = ''''")
  case True
  obtain name s1 where r: "registerAnimation ext props s = (name, s1)"
    by (cases "registerAnimation ext props s")
  then have "name \<noteq> ''''" using registerAnimation_name [of ext props s] by simp
  then show ?thesis
    using True assms r by (simp add: animationData_animationCSS_def Let_def)
next
  case False
  then show ?thesis by (simp add: animationCSS_named)
qed

lemma Set_keeps_name:
  "keyFramesName (fst (snd (animationData_Set ext tag value animation mem))) = keyFramesName animation"
proof (cases "value")
  case None
  then show ?thesis by (simp add: animationData_Set_def animationData_Remove_def)
next
  case (Some v)
  show ?thesis
    unfolding animationData_Set_def Some option.case Let_def
    by (cases v) (simp_all split: prod.splits pval.splits DataNode.splits)
qed

text \<open>
  C6. For an animation whose property "property" holds a list of animated properties, two
  calls of \<^verbatim>\<open>animationCSS\<close> in a row give the same text, which starts with the name; the
  name is not empty after the first call, the second call changes neither the animation
  nor the session (nothing is registered again), a name that was there before the first
  call is kept, and neither \<^verbatim>\<open>Set\<close> nor \<^verbatim>\<open>Remove\<close> changes the name.
\<close>

theorem keyframe_name_cached:
  "(getRaw animation PropertyTag = Some (VAnimatedProperties props) \<longrightarrow>
      (let (css1, a1, s1) = animationData_animationCSS ext animation s;
           (css2, a2, s2) = animationData_animationCSS ext a1 s1
       in keyFramesName a1 \<noteq> '''' \<and> keyFramesName a2 = keyFramesName a1 \<and>
          a2 = a1 \<and> s2 = s1 \<and> css2 = css1 \<and>
          css1 = keyFramesName a1 @ animationData_shorthand ext a1 s1 \<and>
          (keyFramesName animation \<noteq> '''' \<longrightarrow> keyFramesName a1 = keyFramesName animation))) \<and>
   keyFramesName (fst (snd (animationData_Set ext tag value animation mem))) = keyFramesName animation \<and>
   keyFramesName (animationData_Remove tag animation) = keyFramesName animation"
proof (intro conjI impI)
  assume g: "getRaw animation PropertyTag = Some (VAnimatedProperties props)"
  from animationCSS_first [OF g, of ext s] obtain css a1 s1 where
    f: "animationData_animationCSS ext animation s = (css, a1, s1)"
    and n: "keyFramesName a1 \<noteq> ''''"
    and c: "css = keyFramesName a1 @ animationData_shorthand ext a1 s1"
    and k: "keyFramesName animation \<noteq> '''' \<longrightarrow> a1 = animation \<and> s1 = s" by blast
  show "(let (css1, a1, s1) = animationData_animationCSS ext animation s;
           (css2, a2, s2) = animationData_animationCSS ext a1 s1
       in keyFramesName a1 \<noteq> '''' \<and> keyFramesName a2 = keyFramesName a1 \<and>
          a2 = a1 \<and> s2 = s1 \<and> css2 = css1 \<and>
          css1 = keyFramesName a1 @ animationData_shorthand ext a1 s1 \<and>
          (keyFramesName animation \<noteq> '''' \<longrightarrow> keyFramesName a1 = keyFramesName animation))"
    using n c k by (simp add: f animationCSS_named [OF n])
next
  show "keyFramesName (fst (snd (animationData_Set ext tag value animation mem))) = keyFramesName animation"
    by (rule Set_keeps_name)
next
  show "keyFramesName (animationData_Remove tag animation) = keyFramesName animation"
    by (simp add: animationData_Remove_def)
qed

text \<open>
  The theorem at an animation with one property in a new session: the name is kf000001
  after the first call and after the second, and the counter is 1.
\<close>

theorem keyframe_name_cached_witness:
  "getRaw fading PropertyTag = Some (VAnimatedProperties
       [\<lparr>Tag = Opacity, From = Some (PString ''red''), To = Some (PString ''green''),
          KeyFrames = Some 0\<rparr>]) \<and>
   keyFramesName (fst (snd (animationData_animationCSS ext0 fading initSession))) = ''kf000001'' \<and>
   keyFramesName (fst (snd (animationData_animationCSS ext0
       (fst (snd (animationData_animationCSS ext0 fading initSession)))
       (snd (snd (animationData_animationCSS ext0 fading initSession)))))) = ''kf000001'' \<and>
   animationCounter (snd (snd (animationData_animationCSS ext0
       (fst (snd (animationData_animationCSS ext0 fading initSession)))
       (snd (snd (animationData_animationCSS ext0 fading initSession)))))) = 1"
proof -
  have g: "getRaw fading PropertyTag = Some (VAnimatedProperties
       [\<lparr>Tag = Opacity, From = Some (PString ''red''), To = Some (PString ''green''),
          KeyFrames = Some 0\<rparr>])"
    by (simp add: getRaw_def fading_def)
  have f6: "fmt_06d 1 = ''000001''" by code_simp
  have n1: "keyFramesName (fst (snd (animationData_animationCSS ext0 fading initSession))) = ''kf000001''"
    and c1: "animationCounter (snd (snd (animationData_animationCSS ext0 fading initSession))) = 1"
    by (simp_all add: animationData_animationCSS_def g registerAnimation_def Let_def f6 initSession_def
        runScript_def split: prod.splits) (simp_all add: fading_def)
  obtain css1 a1 s1 where f1: "animationData_animationCSS ext0 fading initSession = (css1, a1, s1)"
    by (cases "animationData_animationCSS ext0 fading initSession")
  obtain css2 a2 s2 where f2: "animationData_animationCSS ext0 a1 s1 = (css2, a2, s2)"
    by (cases "animationData_animationCSS ext0 a1 s1")
  from keyframe_name_cached [of fading
      "[\<lparr>Tag = Opacity, From = Some (PString ''red''), To = Some (PString ''green''),
          KeyFrames = Some 0\<rparr>]" ext0 initSession Opacity None] g
  have "a2 = a1 \<and> s2 = s1" by (simp add: f1 f2)
  then show ?thesis
    using n1 c1 g by (simp add: f1 f2)
qed

subsection \<open>A failed animated set\<close>

lemma ToLower_opacity: "strings_ToLower Opacity = Opacity"
  by code_simp

lemma ToLower_id: "strings_ToLower ID = ID"
  by code_simp

lemma Set_opacity_rejected:
  assumes "viewStyle_set ext Opacity value v = (False, v')"
  shows "viewData_Set ext Opacity (Some value) v = (False, v')"
  using assms by (simp add: viewData_Set_def ToLower_opacity viewData_set_def)

lemma Set_id_rejected:
  "viewData_Set ext ID (Some (VPlain (PInt n))) v = (False, onSession (logged (NotCompatibleType ID)) v)"
  by (simp add: viewData_Set_def ToLower_id viewData_set_def)

lemma SetAnimated_rejected:
  assumes "animation \<noteq> None"
    and "\<And>v. \<exists>v'. viewData_Set ext tag value v = (False, v') \<and> transitions v' = transitions v \<and>
            singleTransition v' = singleTransition v"
  shows "fst (viewData_SetAnimated ext tag value animation view) = False \<and>
         singleTransition (snd (viewData_SetAnimated ext tag value animation view)) =
           (singleTransition view)(tag := None) \<and>
         transitions (snd (viewData_SetAnimated ext tag value animation view)) =
           (transitions view)(tag \<mapsto> animation)"
proof -
  define v1 where "v1 = updateTransitionCSS ext
      ((case transitions view tag of
          Some prevAnimation \<Rightarrow>
            (onSession (updateProperty (fst (viewData_htmlID ext (onSession (updateProperty (fst (viewData_htmlID ext view)) ''ontransitionend'' ''transitionEndEvent(this, event)'') (snd (viewData_htmlID ext view))))) ''ontransitioncancel'' ''transitionCancelEvent(this, event)'')
               (snd (viewData_htmlID ext (onSession (updateProperty (fst (viewData_htmlID ext view)) ''ontransitionend'' ''transitionEndEvent(this, event)'') (snd (viewData_htmlID ext view))))))
            \<lparr>singleTransition := (singleTransition view)(tag \<mapsto> prevAnimation)\<rparr>
        | None \<Rightarrow>
            (onSession (updateProperty (fst (viewData_htmlID ext (onSession (updateProperty (fst (viewData_htmlID ext view)) ''ontransitionend'' ''transitionEndEvent(this, event)'') (snd (viewData_htmlID ext view))))) ''ontransitioncancel'' ''transitionCancelEvent(this, event)'')
               (snd (viewData_htmlID ext (onSession (updateProperty (fst (viewData_htmlID ext view)) ''ontransitionend'' ''transitionEndEvent(this, event)'') (snd (viewData_htmlID ext view))))))
            \<lparr>singleTransition := (singleTransition view)(tag \<mapsto> None)\<rparr>)
       \<lparr>transitions := (transitions view)(tag \<mapsto> animation)\<rparr>)"
  have t1: "transitions v1 = (transitions view)(tag \<mapsto> animation)"
    by (simp add: v1_def split: option.splits)
  have s1: "singleTransition v1 tag \<noteq> None \<and> (\<forall>k. k \<noteq> tag \<longrightarrow> singleTransition v1 k = singleTransition view k)"
    by (simp add: v1_def split: option.splits)
  from assms(2) obtain v2 where set: "viewData_Set ext tag value v1 = (False, v2)"
    and t2: "transitions v2 = transitions v1" and s2: "singleTransition v2 = singleTransition v1"
    by blast
  have eq: "viewData_SetAnimated ext tag value animation view =
      (False, updateTransitionCSS ext (v2\<lparr>singleTransition := (singleTransition v2)(tag := None)\<rparr>))"
    using assms(1) set
    by (simp add: viewData_SetAnimated_def case_prod_beta Let_def v1_def [symmetric] split: option.splits)
      (auto simp: v1_def split: option.splits)
  have "(singleTransition v1)(tag := None) = (singleTransition view)(tag := None)"
    using s1 by (auto simp: fun_eq_iff)
  then show ?thesis
    by (simp add: eq t2 s2 t1)
qed

text \<open>
  C1. When the plain set inside \<^verbatim>\<open>SetAnimated\<close> fails, \<^verbatim>\<open>SetAnimated\<close> returns false and
  the entry of \<open>singleTransition\<close> for the tag is removed, but the entry of \<open>transitions\<close>
  for the tag stays the animation of the call: neither what \<open>transitions\<close> held before the
  call nor what \<open>singleTransition\<close> held is put back. This is shown for the tag "opacity"
  and a value that the base style rejects, leaving its view as it is, and for the tag
  "id" and an integer, which view.go itself rejects.
\<close>

theorem SetAnimated_failure_keeps_override:
  "(animation \<noteq> None \<and> (\<forall>v. viewStyle_set ext Opacity value v = (False, v)) \<longrightarrow>
      fst (viewData_SetAnimated ext Opacity (Some value) animation view) = False \<and>
      singleTransition (snd (viewData_SetAnimated ext Opacity (Some value) animation view)) =
        (singleTransition view)(Opacity := None) \<and>
      transitions (snd (viewData_SetAnimated ext Opacity (Some value) animation view)) =
        (transitions view)(Opacity \<mapsto> animation)) \<and>
   (animation \<noteq> None \<longrightarrow>
      fst (viewData_SetAnimated ext ID (Some (VPlain (PInt n))) animation view) = False \<and>
      singleTransition (snd (viewData_SetAnimated ext ID (Some (VPlain (PInt n))) animation view)) =
        (singleTransition view)(ID := None) \<and>
      transitions (snd (viewData_SetAnimated ext ID (Some (VPlain (PInt n))) animation view)) =
        (transitions view)(ID \<mapsto> animation))"
proof -
  have a: "fst (viewData_SetAnimated ext Opacity (Some value) animation view) = False \<and>
      singleTransition (snd (viewData_SetAnimated ext Opacity (Some value) animation view)) =
        (singleTransition view)(Opacity := None) \<and>
      transitions (snd (viewData_SetAnimated ext Opacity (Some value) animation view)) =
        (transitions view)(Opacity \<mapsto> animation)"
    if h: "animation \<noteq> None \<and> (\<forall>v. viewStyle_set ext Opacity value v = (False, v))"
  proof -
    from h have "\<And>v. \<exists>v'. viewData_Set ext Opacity (Some value) v = (False, v') \<and>
        transitions v' = transitions v \<and> singleTransition v' = singleTransition v"
      using Set_opacity_rejected [of ext "value"] by blast
    from SetAnimated_rejected [of animation ext Opacity "Some value" view, OF _ this] h
    show ?thesis by blast
  qed
  have b: "fst (viewData_SetAnimated ext ID (Some (VPlain (PInt n))) animation view) = False \<and>
      singleTransition (snd (viewData_SetAnimated ext ID (Some (VPlain (PInt n))) animation view)) =
        (singleTransition view)(ID := None) \<and>
      transitions (snd (viewData_SetAnimated ext ID (Some (VPlain (PInt n))) animation view)) =
        (transitions view)(ID \<mapsto> animation)"
    if h: "animation \<noteq> None"
  proof -
    have "\<And>v. \<exists>v'. viewData_Set ext ID (Some (VPlain (PInt n))) v = (False, v') \<and>
        transitions v' = transitions v \<and> singleTransition v' = singleTransition v"
      by (simp add: Set_id_rejected)
    from SetAnimated_rejected [of animation ext ID "Some (VPlain (PInt n))" view, OF h this]
    show ?thesis .
  qed
  from a b show ?thesis by blast
qed

text \<open>
  The theorem on a new view, where \<open>transitions\<close> had no entry for "opacity" before and
  holds the animation at address 1 after, and on a view that already overrides
  "opacity" with a saved animation, which is lost.
\<close>

theorem SetAnimated_failure_keeps_override_witness:
  "Some 1 \<noteq> (None :: Animation) \<and> (\<forall>v. viewStyle_set ext0 Opacity (VOther 0) v = (False, v)) \<and>
   transitions initView Opacity = None \<and> singleTransition initView Opacity = None \<and>
   fst (viewData_SetAnimated ext0 Opacity (Some (VOther 0)) (Some 1) initView) = False \<and>
   singleTransition (snd (viewData_SetAnimated ext0 Opacity (Some (VOther 0)) (Some 1) initView)) Opacity = None \<and>
   transitions (snd (viewData_SetAnimated ext0 Opacity (Some (VOther 0)) (Some 1) initView)) Opacity = Some (Some 1) \<and>
   transitions (overridingView (Some 2)) Opacity = Some (Some 1) \<and>
   singleTransition (overridingView (Some 2)) Opacity = Some (Some 2) \<and>
   fst (viewData_SetAnimated ext0 Opacity (Some (VOther 0)) (Some 3) (overridingView (Some 2))) = False \<and>
   singleTransition (snd (viewData_SetAnimated ext0 Opacity (Some (VOther 0)) (Some 3) (overridingView (Some 2)))) Opacity = None \<and>
   transitions (snd (viewData_SetAnimated ext0 Opacity (Some (VOther 0)) (Some 3) (overridingView (Some 2)))) Opacity = Some (Some 3)"
proof -
  have r: "\<forall>v. viewStyle_set ext0 Opacity (VOther 0) v = (False, v)"
    by (simp add: ext0_def plainStyleSet_def)
  from SetAnimated_failure_keeps_override [of "Some 1" ext0 "VOther 0" initView 0]
    SetAnimated_failure_keeps_override [of "Some 3" ext0 "VOther 0" "overridingView (Some 2)" 0] r
  show ?thesis
    by (simp add: initView_def overridingView_def)
qed

subsection \<open>The width of a border edge\<close>

lemma set_default:
  assumes "tag \<notin> set [ID, UserData, Style, StyleDisabled, FocusEvent, LostFocusEvent, KeyDownEvent, KeyUpEvent,
      ClickEvent, DoubleClickEvent, MouseDown, MouseUp, MouseMove, MouseOut, MouseOver, ContextMenuEvent,
      PointerDown, PointerUp, PointerMove, PointerOut, PointerOver, PointerCancel,
      TouchStart, TouchEnd, TouchMove, TouchCancel,
      TransitionRunEvent, TransitionStartEvent, TransitionEndEvent, TransitionCancelEvent,
      AnimationStartEvent, AnimationEndEvent, AnimationIterationEvent, AnimationCancelEvent,
      ResizeEvent, ScrollEvent]"
  shows "viewData_set ext tag (Some value) view0 =
     (let (ok, view) = viewStyle_set ext tag value view0 in
      if \<not> ok then (False, view)
      else (True, propertyChangedEvent tag (if created view then viewPropertyChanged ext view tag else view)))"
  using assms unfolding viewData_set_def by (simp add: Let_def split: prod.splits)

lemma body_width_branch:
  assumes "tag \<in> set [BorderWidth, BorderLeftWidth, BorderRightWidth, BorderTopWidth, BorderBottomWidth]"
    and "tag \<notin> set [Disabled, Visibility, Background, Border, BorderLeft, BorderRight, BorderTop, BorderBottom,
      BorderStyle, BorderLeftStyle, BorderRightStyle, BorderTopStyle, BorderBottomStyle,
      BorderColor, BorderLeftColor, BorderRightColor, BorderTopColor, BorderBottomColor]"
    and "updateTransformProperty ext tag view = (False, v1)"
    and "viewData_htmlID ext v1 = (hid, v2)"
  shows "viewPropertyChanged_body ext self view tag =
           (case getBorder ext v2 Border of
              Some border \<Rightarrow> onSession (updateCSSProperty hid BorderWidth (cssWidthValue border)) v2
            | None \<Rightarrow> v2)"
proof -
  have "\<not> (tag = Border \<and> getBorder ext v2 Border = None)" using assms(2) by simp
  with assms show ?thesis unfolding viewPropertyChanged_body_def
    by simp
qed


lemma width_tag_facts:
  assumes "tag \<in> set [BorderLeftWidth, BorderRightWidth, BorderTopWidth, BorderBottomWidth]"
  shows "tag \<in> set [BorderWidth, BorderLeftWidth, BorderRightWidth, BorderTopWidth, BorderBottomWidth]"
    and "tag \<notin> set [Disabled, Visibility, Background, Border, BorderLeft, BorderRight, BorderTop, BorderBottom,
      BorderStyle, BorderLeftStyle, BorderRightStyle, BorderTopStyle, BorderBottomStyle,
      BorderColor, BorderLeftColor, BorderRightColor, BorderTopColor, BorderBottomColor]"
    and "tag \<notin> set [ID, UserData, Style, StyleDisabled, FocusEvent, LostFocusEvent, KeyDownEvent, KeyUpEvent,
      ClickEvent, DoubleClickEvent, MouseDown, MouseUp, MouseMove, MouseOut, MouseOver, ContextMenuEvent,
      PointerDown, PointerUp, PointerMove, PointerOut, PointerOver, PointerCancel,
      TouchStart, TouchEnd, TouchMove, TouchCancel,
      TransitionRunEvent, TransitionStartEvent, TransitionEndEvent, TransitionCancelEvent,
      AnimationStartEvent, AnimationEndEvent, AnimationIterationEvent, AnimationCancelEvent,
      ResizeEvent, ScrollEvent]"
  using assms by auto

lemma body_width:
  assumes "tag \<in> set [BorderLeftWidth, BorderRightWidth, BorderTopWidth, BorderBottomWidth]"
    and "updateTransformProperty ext tag view = (False, v1)"
    and "viewData_htmlID ext v1 = (hid, v2)"
  shows "viewPropertyChanged_body ext self view tag =
           (case getBorder ext v2 Border of
              Some border \<Rightarrow> onSession (updateCSSProperty hid BorderWidth (cssWidthValue border)) v2
            | None \<Rightarrow> v2)"
  by (rule body_width_branch [OF width_tag_facts(1) [OF assms(1)] width_tag_facts(2) [OF assms(1)] assms(2) assms(3)])

lemma set_width:
  assumes "tag \<in> set [BorderLeftWidth, BorderRightWidth, BorderTopWidth, BorderBottomWidth]"
    and "viewStyle_set ext tag value view0 = (True, view)" and "created view"
  shows "viewData_set ext tag (Some value) view0 =
           (True, propertyChangedEvent tag (viewPropertyChanged ext view tag))"
  using assms(2,3) by (simp add: set_default [OF width_tag_facts(3) [OF assms(1)]])

lemma calls_shape:
  "\<exists>ls. (let view = (case changeListener v tag0 of
                       Some listener \<Rightarrow> onSession (logged (Invoke listener tag0)) v
                     | None \<Rightarrow> v);
             group = g
         in case group of
              None \<Rightarrow> view
            | Some tag \<Rightarrow>
                (case changeListener view tag of
                   Some listener \<Rightarrow> onSession (logged (Invoke listener tag)) view
                 | None \<Rightarrow> view)) = onSession (\<lambda>s. s\<lparr>trace := trace s @ ls\<rparr>) v \<and>
        (\<forall>e\<in>set ls. \<exists>l t. e = Invoke l t)"
proof -
  have 0: "v = onSession (\<lambda>s. s\<lparr>trace := trace s @ []\<rparr>) v"
    by (simp add: onSession_def)
  have 1: "onSession (logged (Invoke l t)) v = onSession (\<lambda>s. s\<lparr>trace := trace s @ [Invoke l t]\<rparr>) v" for l t
    by (simp add: onSession_def logged_def)
  have 2: "onSession (logged (Invoke l' t')) (onSession (logged (Invoke l t)) v) =
      onSession (\<lambda>s. s\<lparr>trace := trace s @ [Invoke l t, Invoke l' t']\<rparr>) v" for l t l' t'
    by (simp add: onSession_def logged_def)
  show ?thesis
  proof (cases "changeListener v tag0")
    case None
    show ?thesis
    proof (cases g)
      case gn: None
      from None gn 0 show ?thesis by (intro exI [of _ "[]"]) simp
    next
      case (Some tag)
      show ?thesis
      proof (cases "changeListener v tag")
        case cn: None
        from None Some cn 0 show ?thesis by (intro exI [of _ "[]"]) simp
      next
        case (Some l)
        from None \<open>g = Some tag\<close> Some 1 show ?thesis by (intro exI [of _ "[Invoke l tag]"]) simp
      qed
    qed
  next
    case (Some l0)
    show ?thesis
    proof (cases g)
      case None
      from Some None 1 show ?thesis by (intro exI [of _ "[Invoke l0 tag0]"]) simp
    next
      case gs: (Some tag)
      show ?thesis
      proof (cases "changeListener v tag")
        case None
        from Some gs None 1 show ?thesis by (intro exI [of _ "[Invoke l0 tag0]"]) simp
      next
        case cs: (Some l)
        from Some gs cs 2 show ?thesis by (intro exI [of _ "[Invoke l0 tag0, Invoke l tag]"]) simp
      qed
    qed
  qed
qed

lemma propertyChangedEvent_calls:
  "\<exists>ls. propertyChangedEvent tag v = onSession (\<lambda>s. s\<lparr>trace := trace s @ ls\<rparr>) v \<and>
        (\<forall>e\<in>set ls. \<exists>l t. e = Invoke l t)"
  unfolding propertyChangedEvent_def by (rule calls_shape)

text \<open>
  C2, as amended. On a view that is on the rendering surface, a successful set of one of
  the four tags of the width of a border edge issues one instruction when a border is
  configured, the update of the CSS property border-width, and none when no border is
  configured; the color and the style are not sent again. The only other entries that
  the set adds to the trace are calls of change listeners.
\<close>

theorem border_width_one_instruction:
  "tag \<in> set [BorderLeftWidth, BorderRightWidth, BorderTopWidth, BorderBottomWidth] \<and>
   viewStyle_set ext tag value view0 = (True, view) \<and> created view \<and>
   updateTransformProperty ext tag view = (False, v1) \<and> viewData_htmlID ext v1 = (hid, v2) \<longrightarrow>
     trace (session (viewPropertyChanged ext view tag)) =
       trace (session v2) @
       (case getBorder ext v2 Border of
          Some border \<Rightarrow> [UpdateCSSProperty hid BorderWidth (cssWidthValue border)]
        | None \<Rightarrow> []) \<and>
     fst (viewData_set ext tag (Some value) view0) = True \<and>
     (\<exists>ls. trace (session (snd (viewData_set ext tag (Some value) view0))) =
             trace (session v2) @
             (case getBorder ext v2 Border of
                Some border \<Rightarrow> [UpdateCSSProperty hid BorderWidth (cssWidthValue border)]
              | None \<Rightarrow> []) @ ls \<and>
           (\<forall>e\<in>set ls. \<exists>l t. e = Invoke l t))"
proof
  assume h: "tag \<in> set [BorderLeftWidth, BorderRightWidth, BorderTopWidth, BorderBottomWidth] \<and>
   viewStyle_set ext tag value view0 = (True, view) \<and> created view \<and>
   updateTransformProperty ext tag view = (False, v1) \<and> viewData_htmlID ext v1 = (hid, v2)"
  then have m: "tag \<in> set [BorderLeftWidth, BorderRightWidth, BorderTopWidth, BorderBottomWidth]"
    and vs: "viewStyle_set ext tag value view0 = (True, view)" and cr: "created view"
    and ut: "updateTransformProperty ext tag view = (False, v1)"
    and hi: "viewData_htmlID ext v1 = (hid, v2)" by blast+
  have vp: "viewPropertyChanged ext view tag =
           (case getBorder ext v2 Border of
              Some border \<Rightarrow> onSession (updateCSSProperty hid BorderWidth (cssWidthValue border)) v2
            | None \<Rightarrow> v2)"
    unfolding viewPropertyChanged_def by (rule body_width [OF m ut hi])
  have tr: "trace (session (viewPropertyChanged ext view tag)) =
       trace (session v2) @
       (case getBorder ext v2 Border of
          Some border \<Rightarrow> [UpdateCSSProperty hid BorderWidth (cssWidthValue border)]
        | None \<Rightarrow> [])"
    unfolding vp by (simp add: updateCSSProperty_def split: option.splits)
  from propertyChangedEvent_calls [of tag "viewPropertyChanged ext view tag"] obtain ls where
    pc: "propertyChangedEvent tag (viewPropertyChanged ext view tag) =
          onSession (\<lambda>s. s\<lparr>trace := trace s @ ls\<rparr>) (viewPropertyChanged ext view tag)"
    and inv: "\<forall>e\<in>set ls. \<exists>l t. e = Invoke l t" by blast
  have st: "viewData_set ext tag (Some value) view0 =
      (True, onSession (\<lambda>s. s\<lparr>trace := trace s @ ls\<rparr>) (viewPropertyChanged ext view tag))"
    using set_width [OF m vs cr] pc by simp
  have "trace (session (snd (viewData_set ext tag (Some value) view0))) =
             trace (session v2) @
             (case getBorder ext v2 Border of
                Some border \<Rightarrow> [UpdateCSSProperty hid BorderWidth (cssWidthValue border)]
              | None \<Rightarrow> []) @ ls"
    by (simp add: st tr)
  with tr st inv show "trace (session (viewPropertyChanged ext view tag)) =
       trace (session v2) @
       (case getBorder ext v2 Border of
          Some border \<Rightarrow> [UpdateCSSProperty hid BorderWidth (cssWidthValue border)]
        | None \<Rightarrow> []) \<and>
     fst (viewData_set ext tag (Some value) view0) = True \<and>
     (\<exists>ls. trace (session (snd (viewData_set ext tag (Some value) view0))) =
             trace (session v2) @
             (case getBorder ext v2 Border of
                Some border \<Rightarrow> [UpdateCSSProperty hid BorderWidth (cssWidthValue border)]
              | None \<Rightarrow> []) @ ls \<and>
           (\<forall>e\<in>set ls. \<exists>l t. e = Invoke l t))"
    by auto
qed

lemma ext0_width_facts:
  "viewStyle_set ext0 BorderLeftWidth (VPlain (PString ''2px'')) borderedView = (True, widthSet)"
  "created widthSet"
  "updateTransformProperty ext0 BorderLeftWidth widthSet = (False, widthSet)"
  "viewData_htmlID ext0 widthSet = (''v1'', widthSet)"
  "getBorder ext0 widthSet Border = Some \<lparr>cssWidthValue = ''1px'', cssColorValue = ''black'', cssStyleValue = ''solid''\<rparr>"
  "getBorder ext0 borderedView Border = Some \<lparr>cssWidthValue = ''1px'', cssColorValue = ''black'', cssStyleValue = ''solid''\<rparr>"
  "trace (session widthSet) = []"
  "changeListener widthSet = Map.empty"
  by (simp_all add: ext0_def plainStyleSet_def widthSet_def borderedView_def initView_def initSession_def
      viewData_htmlID_def)

text \<open>The theorem on a view with a border, for the width of the left edge.\<close>

theorem border_width_one_instruction_witness:
  "BorderLeftWidth \<in> set [BorderLeftWidth, BorderRightWidth, BorderTopWidth, BorderBottomWidth] \<and>
   viewStyle_set ext0 BorderLeftWidth (VPlain (PString ''2px'')) borderedView = (True, widthSet) \<and>
   created widthSet \<and>
   updateTransformProperty ext0 BorderLeftWidth widthSet = (False, widthSet) \<and>
   viewData_htmlID ext0 widthSet = (''v1'', widthSet) \<and>
   trace (session (viewPropertyChanged ext0 widthSet BorderLeftWidth)) =
     [UpdateCSSProperty ''v1'' BorderWidth ''1px''] \<and>
   fst (viewData_set ext0 BorderLeftWidth (Some (VPlain (PString ''2px''))) borderedView) = True"
  using border_width_one_instruction [of BorderLeftWidth ext0 "VPlain (PString ''2px'')" borderedView
      widthSet widthSet "''v1''" widthSet]
  by (simp add: ext0_width_facts)

lemma ToLower_borderLeftWidth: "strings_ToLower BorderLeftWidth = BorderLeftWidth"
  by code_simp

text \<open>
  C2 as the specification states it (three instructions when a border is configured)
  fails on that view: the set of the width of the left edge issues the one instruction
  for border-width.
\<close>

theorem border_width_three_counterexample:
  "created borderedView \<and> getBorder ext0 borderedView Border \<noteq> None \<and>
   trace (session borderedView) = [] \<and>
   fst (viewData_Set ext0 BorderLeftWidth (Some (VPlain (PString ''2px''))) borderedView) \<and>
   trace (session (snd (viewData_Set ext0 BorderLeftWidth (Some (VPlain (PString ''2px''))) borderedView))) =
     [UpdateCSSProperty ''v1'' BorderWidth ''1px'']"
proof -
  have m: "BorderLeftWidth \<in> set [BorderLeftWidth, BorderRightWidth, BorderTopWidth, BorderBottomWidth]"
    by simp
  have vp: "viewPropertyChanged ext0 widthSet BorderLeftWidth =
      onSession (updateCSSProperty ''v1'' BorderWidth ''1px'') widthSet"
    unfolding viewPropertyChanged_def
    by (simp add: body_width [OF m ext0_width_facts(3) ext0_width_facts(4)] ext0_width_facts(5))
  have pc: "propertyChangedEvent BorderLeftWidth (onSession f widthSet) = onSession f widthSet" for f
    by (simp add: propertyChangedEvent_def ext0_width_facts(8))
  have "viewData_Set ext0 BorderLeftWidth (Some (VPlain (PString ''2px''))) borderedView =
      (True, onSession (updateCSSProperty ''v1'' BorderWidth ''1px'') widthSet)"
    unfolding viewData_Set_def ToLower_borderLeftWidth
    by (simp add: set_width [OF m ext0_width_facts(1) ext0_width_facts(2)] vp pc)
  then show ?thesis
    by (simp add: ext0_width_facts updateCSSProperty_def) (simp add: borderedView_def initView_def initSession_def)
qed

subsection \<open>Collections of listeners with a nil callback\<close>

lemma wrapEach_None: "wrapEach wrap fs = None \<longleftrightarrow> list_ex (\<lambda>f. f = None) fs"
  by (induction fs) (auto split: option.splits)

text \<open>
  The collections that the normalization does reject: a slice of functions with a nil
  function, and a \<^verbatim>\<open>[]interface{}\<close> with the nil interface or a value of another type.
\<close>

lemma nil_function_in_slice:
  "list_ex (\<lambda>l. l = NilFunc) ls \<Longrightarrow> valueToAnimationListeners (Some (VFuncViewStrings ls)) = ([], False)"
  "list_ex (\<lambda>f. f = None) fs \<Longrightarrow> valueToAnimationListeners (Some (VFuncStrings fs)) = ([], False)"
  "list_ex (\<lambda>f. f = None) fs \<Longrightarrow> valueToAnimationListeners (Some (VFuncViews fs)) = ([], False)"
  "list_ex (\<lambda>f. f = None) fs \<Longrightarrow> valueToAnimationListeners (Some (VFunc0s fs)) = ([], False)"
  using wrapEach_None [of WrapString fs] wrapEach_None [of WrapView fs] wrapEach_None [of Wrap0 fs]
  by (auto simp: valueToAnimationListeners_def list_ex_iff)

lemma wrapAny_None:
  "wrapAny vs = None \<longleftrightarrow> None \<in> set vs \<or> (\<exists>x. Some x \<in> set vs \<and> \<not> listenerShape x)"
proof (induction vs)
  case Nil
  show ?case by simp
next
  case (Cons v vs)
  show ?case
  proof (cases v)
    case None
    then show ?thesis by simp
  next
    case (Some x)
    with Cons.IH show ?thesis
      by (cases x) (auto split: option.splits)
  qed
qed

lemma no_callback_in_interfaces:
  "None \<in> set vs \<or> (\<exists>x. Some x \<in> set vs \<and> \<not> listenerShape x) \<Longrightarrow>
   valueToAnimationListeners (Some (VAnys vs)) = ([], False)"
  using wrapAny_None [of vs] by (auto simp: valueToAnimationListeners_def)

lemma set_transition_tag:
  "tag \<in> set [TransitionRunEvent, TransitionStartEvent, TransitionEndEvent, TransitionCancelEvent] \<Longrightarrow>
   viewData_set ext tag (Some value) view =
     (\<lambda>(res, view). if res then (res, propertyChangedEvent tag view) else (res, view))
       (setTransitionListener ext tag (Some value) view)"
  by (auto simp: viewData_set_def)

lemma ToLower_transitionEnd: "strings_ToLower TransitionEndEvent = TransitionEndEvent"
  by code_simp

text \<open>
  C4. A \<^verbatim>\<open>[]interface{}\<close> whose one element is a nil function of type \<^verbatim>\<open>func(View)\<close> is a
  collection with a nil callback, and it is not rejected: the normalization returns ok
  with a list of one listener, the closure around the nil function, where the slice of
  functions with the same nil function gives no list and not-ok. On a view that holds
  one listener of the end of a transition, the setter of the listeners and \<^verbatim>\<open>Set\<close> for
  the tag "transition-end-event" return true, and the listener held before the call is
  replaced by that closure.
\<close>

theorem boxed_nil_callback_accepted:
  "invalidCollection (VAnys [Some (VFuncView None)]) \<and>
   valueToAnimationListeners (Some (VAnys [Some (VFuncView None)])) = ([WrapView None], True) \<and>
   valueToAnimationListeners (Some (VFuncViews [None])) = ([], False) \<and>
   properties listeningView TransitionEndEvent = Some (VFuncViewStrings [Func 3]) \<and>
   setTransitionListener ext TransitionEndEvent (Some (VAnys [Some (VFuncView None)])) listeningView =
     (True, listeningView\<lparr>properties := [TransitionEndEvent \<mapsto> VFuncViewStrings [WrapView None]]\<rparr>) \<and>
   viewData_Set ext TransitionEndEvent (Some (VAnys [Some (VFuncView None)])) listeningView =
     (True, listeningView\<lparr>properties := [TransitionEndEvent \<mapsto> VFuncViewStrings [WrapView None]]\<rparr>)"
  (is "?A \<and> ?B \<and> ?C \<and> ?D \<and> ?E \<and> ?F")
proof -
  have a: ?A by (simp add: invalidElement_def)
  have b: ?B by (simp add: valueToAnimationListeners_def)
  have c: ?C by (simp add: valueToAnimationListeners_def)
  have d: ?D by (simp add: listeningView_def)
  have e: ?E
    by (simp add: setTransitionListener_def b transitionEvents_def listeningView_def initView_def)
  have m: "TransitionEndEvent \<in> set [TransitionRunEvent, TransitionStartEvent, TransitionEndEvent, TransitionCancelEvent]"
    by simp
  have f: ?F
    unfolding viewData_Set_def ToLower_transitionEnd set_transition_tag [OF m]
    by (simp add: e) (simp add: propertyChangedEvent_def listeningView_def initView_def)
  from a b c d e f show ?thesis by blast
qed

end
